theory Spec2Isabelle
  imports Complex_Main "HOL-Library.Product_Lexorder"
begin

section \<open>Dashboard aggregation and insight pipeline (route.ts)\<close>

text \<open>
  Strings of the program are modelled as \<^typ>\<open>string\<close>; a character beyond ASCII
  that the source uses (the accented letters of the Spanish labels) is the single
  character of its Latin-1 code, as it is one code unit of the JavaScript string.
\<close>

subsection \<open>Monthly activity: merging the two monthly series\<close>

text \<open>Rows of the query \<open>monthlyUsers\<close> (month, name, usuarios).\<close>

record monthly_users_row =
  mu_month :: string
  mu_name :: string
  mu_usuarios :: int

text \<open>Rows of the query \<open>monthlyTests\<close> (month, tests).\<close>

record monthly_tests_row =
  mt_month :: string
  mt_tests :: int

text \<open>\<open>interface MonthlyData\<close>.\<close>

record MonthlyData =
  md_month :: string
  md_name :: string
  md_usuarios :: int
  md_tests :: int

text \<open>
  \<open>monthlyUsers.map(month => { const matchingTests = monthlyTests.find(test => test.month === month.month);
     return { ...month, tests: matchingTests ? matchingTests.tests : 0 } })\<close>.
  \<open>Array.prototype.find\<close> returns the first element that satisfies the predicate, or
  \<open>undefined\<close>; a row object is always truthy.
\<close>

definition combinedMonthlyData ::
  "monthly_users_row list \<Rightarrow> monthly_tests_row list \<Rightarrow> MonthlyData list" where
  "combinedMonthlyData monthlyUsers monthlyTests =
     map (\<lambda>month.
        let matchingTests = find (\<lambda>test. mt_month test = mu_month month) monthlyTests
        in \<lparr> md_month = mu_month month,
             md_name = mu_name month,
             md_usuarios = mu_usuarios month,
             md_tests = (case matchingTests of Some t \<Rightarrow> mt_tests t | None \<Rightarrow> 0) \<rparr>)
       monthlyUsers"

subsection \<open>Weekly message activity: translating the day label\<close>

text \<open>Rows of the query \<open>messageActivity\<close>; \<open>SUM(is_bot)\<close> may be \<open>NULL\<close>.\<close>

record message_activity_row =
  ma_dia :: string
  ma_mensajes :: int
  ma_chatbots :: "int option"

text \<open>
  The value of \<open>diasTraducidos[day.dia] || day.dia\<close>: a string, or, when the key names a
  property that the object literal inherits from \<open>Object.prototype\<close>, that inherited
  (truthy, non-string) value.
\<close>

datatype dia_value = DiaString string | DiaInherited string

record MessageActivity =
  dia :: dia_value
  mensajes :: int
  chatbots :: "int option"

text \<open>The object literal \<open>diasTraducidos\<close>, its own properties in source order.\<close>

definition diasTraducidos :: "(string \<times> string) list" where
  "diasTraducidos =
     [(''Mon'', ''Lun''),
      (''Tue'', ''Mar''),
      (''Wed'', ''Mi'' @ [CHR 0xE9]),
      (''Thu'', ''Jue''),
      (''Fri'', ''Vie''),
      (''Sat'', ''S'' @ [CHR 0xE1] @ ''b''),
      (''Sun'', ''Dom'')]"

text \<open>
  The property names every plain object inherits from \<open>Object.prototype\<close>
  (ECMAScript, with the legacy accessors of its Annex B); each of them is a function or
  an object, hence truthy.
\<close>

definition Object_prototype_keys :: "string list" where
  "Object_prototype_keys =
     [''constructor'', ''hasOwnProperty'', ''isPrototypeOf'', ''propertyIsEnumerable'',
      ''toLocaleString'', ''toString'', ''valueOf'', ''__proto__'',
      ''__defineGetter__'', ''__defineSetter__'', ''__lookupGetter__'', ''__lookupSetter__'']"

text \<open>
  \<open>diasTraducidos[d] || d\<close>: the own property if there is one and it is truthy (a
  non-empty string), else the inherited property if the key names one, else \<open>d\<close>.
\<close>

definition traducir_dia :: "string \<Rightarrow> dia_value" where
  "traducir_dia d =
     (case map_of diasTraducidos d of
        Some t \<Rightarrow> if t \<noteq> [] then DiaString t else DiaString d
      | None \<Rightarrow> if d \<in> set Object_prototype_keys then DiaInherited d else DiaString d)"

text \<open>\<open>messageActivity.map(day => ({ ...day, dia: diasTraducidos[day.dia] || day.dia }))\<close>.\<close>

definition messageActivityTranslated :: "message_activity_row list \<Rightarrow> MessageActivity list" where
  "messageActivityTranslated messageActivity =
     map (\<lambda>day. \<lparr> dia = traducir_dia (ma_dia day),
                  mensajes = ma_mensajes day,
                  chatbots = ma_chatbots day \<rparr>) messageActivity"

subsection \<open>Values of the store and of the driver\<close>

text \<open>
  A \<open>DATETIME\<close> value: year, month, day, hour, minute, second. The order of the
  type is the lexicographic one, which is the chronological order.
\<close>

type_synonym datetime = "nat \<times> nat \<times> nat \<times> nat \<times> nat \<times> nat"

text \<open>
  A property of a row object as the program sees it: missing from the object
  (\<open>undefined\<close>), \<open>null\<close> (an SQL \<open>NULL\<close>), or a value. SQL expressions are computed
  on \<^typ>\<open>'a option\<close> with \<^const>\<open>None\<close> for \<open>NULL\<close>.
\<close>

datatype 'a field = Absent | Null | Value 'a

definition of_sql :: "'a option \<Rightarrow> 'a field" where
  "of_sql v = (case v of None \<Rightarrow> Null | Some x \<Rightarrow> Value x)"

text \<open>What a failed \<open>await\<close> throws: an \<open>Error\<close> object with its message, or any other value.\<close>

datatype js_thrown = JsError string | JsOther

subsection \<open>Tables\<close>

text \<open>
  The columns the modelled queries read. \<open>id\<close> is the key of \<open>users\<close>; \<open>age\<close> is an
  integer column; \<open>fecha\<close> is not \<open>NULL\<close>.
\<close>

record users_row =
  u_id :: nat
  u_age :: "int option"
  u_gender :: "string option"
  u_created_at :: "datetime option"
  u_updated_at :: "datetime option"

record resultados_test_row =
  rt_usuario_id :: nat
  rt_fecha :: datetime
  rt_ansiedad_score :: "int option"

record chats_row =
  c_user_id :: nat
  c_updated_at :: "datetime option"

subsection \<open>SQL date functions\<close>

definition is_leap_year :: "nat \<Rightarrow> bool" where
  "is_leap_year y \<longleftrightarrow> y mod 4 = 0 \<and> (y mod 100 \<noteq> 0 \<or> y mod 400 = 0)"

definition days_in_month :: "nat \<Rightarrow> nat \<Rightarrow> nat" where
  "days_in_month y m =
     (if m = 2 then (if is_leap_year y then 29 else 28)
      else if m = 4 \<or> m = 6 \<or> m = 9 \<or> m = 11 then 30 else 31)"

text \<open>
  \<open>d - INTERVAL n MONTH\<close> (also \<open>DATE_SUB(d, INTERVAL n MONTH)\<close>): the month moves back
  by \<open>n\<close>, the day is cut to the last day of the resulting month, the time is kept.
  Years are at least 1, so the subtraction on \<^typ>\<open>nat\<close> does not truncate for the
  intervals the queries use.
\<close>

fun sub_months :: "nat \<Rightarrow> datetime \<Rightarrow> datetime" where
  "sub_months n (y, m, d, t) =
     (let k = 12 * y + (m - 1) - n; y' = k div 12; m' = k mod 12 + 1
      in (y', m', min d (days_in_month y' m'), t))"

text \<open>
  \<open>DATE_FORMAT(d, '%Y-%m-01')\<close>, as the \<open>DATETIME\<close> the resulting string denotes when it
  is compared with a \<open>DATETIME\<close> column: the first day of the month of \<open>d\<close> at 00:00:00.
\<close>

fun date_format_Ym01 :: "datetime \<Rightarrow> datetime" where
  "date_format_Ym01 (y, m, d, t) = (y, m, 1, 0, 0, 0)"

text \<open>The day number of a civil date (proleptic Gregorian calendar), as \<open>TO_DAYS\<close> counts days.\<close>

definition day_number :: "nat \<Rightarrow> nat \<Rightarrow> nat \<Rightarrow> int" where
  "day_number y m d =
     (let y' = (if m \<le> 2 then int y - 1 else int y);
          mp = (if m \<le> 2 then int m + 9 else int m - 3)
      in 365 * y' + y' div 4 - y' div 100 + y' div 400 + (153 * mp + 2) div 5 + int d)"

text \<open>\<open>DATEDIFF(a, b)\<close>: the days from the date of \<open>b\<close> to the date of \<open>a\<close>; the times are ignored.\<close>

fun DATEDIFF :: "datetime \<Rightarrow> datetime \<Rightarrow> int" where
  "DATEDIFF (ya, ma, da, ta) (yb, mb, db, tb) = day_number ya ma da - day_number yb mb db"

text \<open>\<open>TIMESTAMPDIFF(MONTH, a, b)\<close>: the whole months from \<open>a\<close> to \<open>b\<close>, negative when \<open>b\<close> is earlier.\<close>

fun whole_months :: "datetime \<Rightarrow> datetime \<Rightarrow> int" where
  "whole_months (ya, ma, ra) (yb, mb, rb) =
     12 * (int yb - int ya) + (int mb - int ma) - (if rb < ra then 1 else 0)"

definition TIMESTAMPDIFF_MONTH :: "datetime \<Rightarrow> datetime \<Rightarrow> int" where
  "TIMESTAMPDIFF_MONTH a b = (if a \<le> b then whole_months a b else - whole_months b a)"

subsection \<open>SQL aggregates and arithmetic\<close>

text \<open>\<open>MIN\<close> and \<open>MAX\<close> skip \<open>NULL\<close> and are \<open>NULL\<close> on no value.\<close>

definition sql_MAX :: "('a::linorder) option list \<Rightarrow> 'a option" where
  "sql_MAX vs = (case List.map_filter id vs of [] \<Rightarrow> None | x # xs \<Rightarrow> Some (fold max xs x))"

definition sql_MIN :: "('a::linorder) option list \<Rightarrow> 'a option" where
  "sql_MIN vs = (case List.map_filter id vs of [] \<Rightarrow> None | x # xs \<Rightarrow> Some (fold min xs x))"

text \<open>\<open>SUM\<close> of an integer expression: \<open>NULL\<close> on no row.\<close>

definition sql_SUM :: "int list \<Rightarrow> int option" where
  "sql_SUM vs = (if vs = [] then None else Some (sum_list vs))"

text \<open>\<open>AVG\<close> skips \<open>NULL\<close> and is \<open>NULL\<close> on no value.\<close>

definition sql_AVG :: "int option list \<Rightarrow> rat option" where
  "sql_AVG vs =
     (case List.map_filter id vs of
        [] \<Rightarrow> None
      | x # xs \<Rightarrow> Some (of_int (sum_list (x # xs)) / of_int (int (length (x # xs)))))"

text \<open>\<open>GREATEST\<close> is \<open>NULL\<close> as soon as one argument is.\<close>

definition sql_GREATEST :: "('a::linorder) option list \<Rightarrow> 'a option" where
  "sql_GREATEST vs = (if None \<in> set vs then None else sql_MAX vs)"

definition IFNULL :: "'a option \<Rightarrow> 'a \<Rightarrow> 'a" where
  "IFNULL v d = (case v of None \<Rightarrow> d | Some x \<Rightarrow> x)"

text \<open>
  \<open>a / b\<close> in a \<open>SELECT\<close>: \<open>NULL\<close> when an operand is \<open>NULL\<close> or the divisor is zero, no
  error. Decimal results are kept exact.
\<close>

definition sql_div :: "rat option \<Rightarrow> rat option \<Rightarrow> rat option" where
  "sql_div a b =
     (case (a, b) of
        (Some x, Some y) \<Rightarrow> if y = 0 then None else Some (x / y)
      | _ \<Rightarrow> None)"

definition sql_times :: "rat option \<Rightarrow> rat \<Rightarrow> rat option" where
  "sql_times a c = map_option (\<lambda>x. x * c) a"

text \<open>\<open>ROUND(x, 1)\<close> on an exact value: to one decimal, a half away from zero.\<close>

definition round1 :: "rat \<Rightarrow> rat" where
  "round1 x =
     (if 0 \<le> x then of_int \<lfloor>x * 10 + 1 / 2\<rfloor> / 10 else - (of_int \<lfloor>- x * 10 + 1 / 2\<rfloor> / 10))"

definition sql_ROUND1 :: "rat option \<Rightarrow> rat option" where
  "sql_ROUND1 v = map_option round1 v"

text \<open>
  \<open>GROUP BY k\<close> with \<open>COUNT(*)\<close>: one row per distinct key with the number of rows that
  have it. SQL leaves the order of the groups open; keys are compared by equality.
\<close>

definition group_count :: "'k list \<Rightarrow> ('k \<times> int) list" where
  "group_count ks = map (\<lambda>k. (k, int (count_list ks k))) (remdups ks)"

text \<open>\<open>FIELD(x, l1, ..., ln)\<close>: the position of \<open>x\<close> in the list, from 1, and 0 when absent.\<close>

fun FIELD :: "'a \<Rightarrow> 'a list \<Rightarrow> nat" where
  "FIELD x [] = 0"
| "FIELD x (l # ls) = (if x = l then 1 else (case FIELD x ls of 0 \<Rightarrow> 0 | Suc i \<Rightarrow> Suc (Suc i)))"

subsection \<open>The queries of \<open>collectRawData\<close> that are modelled on the tables\<close>

text \<open>A row \<open>{ total }\<close> of a \<open>SELECT COUNT(*) as total\<close>; such a query returns one row.\<close>

record count_row =
  cr_total :: int

text \<open>\<open>interface DataPoint\<close> and \<open>interface AgeDistributionPoint\<close>.\<close>

record DataPoint =
  dp_name :: string
  dp_value :: int

record AgeDistributionPoint =
  ad_name :: string
  ad_count :: int

text \<open>\<open>interface Efectividad\<close> and \<open>interface Retencion\<close>.\<close>

record Efectividad =
  total_usuarios :: "int field"
  mejoraron :: "int field"
  porcentaje_mejora :: "rat field"

record Retencion =
  promedio_meses_uso :: "rat field"
  usuarios_activos_este_mes :: "int field"
  usuarios_activos_mes_anterior :: "int field"
  tasa_retencion :: "rat field"

text \<open>\<open>SELECT COUNT(*) as total FROM users\<close>, and the same on the other tables.\<close>

definition sql_count :: "'a list \<Rightarrow> count_row list" where
  "sql_count rows = [\<lparr>cr_total = int (length rows)\<rparr>]"

text \<open>
  \<open>SELECT COUNT(*) as total FROM users
   WHERE created_at >= DATE_FORMAT(NOW() - INTERVAL 1 MONTH, '%Y-%m-01')\<close>;
  a \<open>NULL\<close> \<open>created_at\<close> does not satisfy the comparison.
\<close>

definition sql_newUsersThisMonth :: "datetime \<Rightarrow> users_row list \<Rightarrow> count_row list" where
  "sql_newUsersThisMonth now users =
     [\<lparr>cr_total = int (length (filter
         (\<lambda>u. case u_created_at u of
                 None \<Rightarrow> False
               | Some created_at \<Rightarrow> date_format_Ym01 (sub_months 1 now) \<le> created_at)
         users))\<rparr>]"

text \<open>The \<open>CASE\<close> of the age query, its branches in source order.\<close>

definition age_case :: "int \<Rightarrow> string" where
  "age_case age =
     (if age < 18 then ''Menor de 18''
      else if 18 \<le> age \<and> age \<le> 24 then ''18-24''
      else if 25 \<le> age \<and> age \<le> 34 then ''25-34''
      else if 35 \<le> age \<and> age \<le> 44 then ''35-44''
      else if 45 \<le> age \<and> age \<le> 54 then ''45-54''
      else if age \<ge> 55 then ''55+''
      else ''No especificado'')"

definition age_field_order :: "string list" where
  "age_field_order =
     [''Menor de 18'', ''18-24'', ''25-34'', ''35-44'', ''45-54'', ''55+'', ''No especificado'']"

text \<open>
  \<open>SELECT CASE ... END as name, COUNT(*) as count FROM users WHERE age IS NOT NULL
   GROUP BY name ORDER BY FIELD(name, ...)\<close>.
\<close>

definition sql_ageDistribution :: "users_row list \<Rightarrow> AgeDistributionPoint list" where
  "sql_ageDistribution users =
     map (\<lambda>(n, c). \<lparr>ad_name = n, ad_count = c\<rparr>)
       (sort_key (\<lambda>(n, c). FIELD n age_field_order)
          (group_count (map age_case (List.map_filter u_age users))))"

text \<open>
  \<open>SELECT IFNULL(gender, 'No especificado') as name, COUNT(*) as value FROM users
   GROUP BY gender\<close>: the groups are those of the raw column.
\<close>

definition sql_genderDistribution :: "users_row list \<Rightarrow> DataPoint list" where
  "sql_genderDistribution users =
     map (\<lambda>(gender, c). \<lparr>dp_name = IFNULL gender ''No especificado'', dp_value = c\<rparr>)
       (group_count (map u_gender users))"

text \<open>
  The effectiveness query. \<open>user_tests\<close>: per \<open>usuario_id\<close> the first and the last
  \<open>fecha\<close>, kept when \<open>DATEDIFF(ultima_fecha, primera_fecha) >= 30\<close>.
\<close>

record user_tests_row =
  ut_usuario_id :: nat
  primera_fecha :: "datetime option"
  ultima_fecha :: "datetime option"

definition user_tests :: "resultados_test_row list \<Rightarrow> user_tests_row list" where
  "user_tests tests =
     filter (\<lambda>ut. case (ultima_fecha ut, primera_fecha ut) of
                    (Some u, Some p) \<Rightarrow> DATEDIFF u p \<ge> 30
                  | _ \<Rightarrow> False)
       (map (\<lambda>uid.
           let fechas = map (\<lambda>t. Some (rt_fecha t)) (filter (\<lambda>t. rt_usuario_id t = uid) tests)
           in \<lparr>ut_usuario_id = uid, primera_fecha = sql_MIN fechas, ultima_fecha = sql_MAX fechas\<rparr>)
         (remdups (map rt_usuario_id tests)))"

text \<open>
  \<open>scores\<close>: \<open>user_tests\<close> joined with the test rows of the user at the first date and
  with those at the last date; one row \<open>(primer_score, ultimo_score)\<close> per joined triple.
\<close>

definition scores :: "resultados_test_row list \<Rightarrow> (int option \<times> int option) list" where
  "scores tests =
     [(rt_ansiedad_score first_test, rt_ansiedad_score last_test).
        ut \<leftarrow> user_tests tests,
        first_test \<leftarrow> tests,
        ut_usuario_id ut = rt_usuario_id first_test \<and> primera_fecha ut = Some (rt_fecha first_test),
        last_test \<leftarrow> tests,
        ut_usuario_id ut = rt_usuario_id last_test \<and> ultima_fecha ut = Some (rt_fecha last_test)]"

text \<open>\<open>CASE WHEN ultimo_score < primer_score THEN 1 ELSE 0 END\<close>; a comparison with \<open>NULL\<close> is not true.\<close>

fun mejoro :: "int option \<times> int option \<Rightarrow> int" where
  "mejoro (Some primer_score, Some ultimo_score) = (if ultimo_score < primer_score then 1 else 0)"
| "mejoro _ = 0"

text \<open>
  \<open>SELECT COUNT(*) as total_usuarios, SUM(CASE ...) as mejoraron,
   ROUND(SUM(CASE ...) / COUNT(*) * 100, 1) as porcentaje_mejora FROM scores\<close>:
  an aggregate without \<open>GROUP BY\<close>, hence exactly one row, also over no \<open>scores\<close> row.
\<close>

definition sql_efectividad :: "resultados_test_row list \<Rightarrow> Efectividad list" where
  "sql_efectividad tests =
     (let sc = scores tests;
          suma = sql_SUM (map mejoro sc);
          cuenta = int (length sc)
      in [\<lparr>total_usuarios = Value cuenta,
           mejoraron = of_sql suma,
           porcentaje_mejora =
             of_sql (sql_ROUND1 (sql_times (sql_div (map_option of_int suma) (Some (of_int cuenta))) 100))\<rparr>])"

text \<open>
  The retention query. \<open>user_activity\<close>: per user (\<open>GROUP BY users.id\<close>, the key) the
  creation time and the latest of the account update, the chat updates and the test dates,
  the last two replaced by 1970-01-01 when the user has none.
\<close>

record user_activity_row =
  ua_id :: nat
  primera_actividad :: "datetime option"
  ultima_actividad :: "datetime option"

definition epoch_1970 :: datetime where
  "epoch_1970 = (1970, 1, 1, 0, 0, 0)"

definition user_activity ::
  "users_row list \<Rightarrow> chats_row list \<Rightarrow> resultados_test_row list \<Rightarrow> user_activity_row list" where
  "user_activity users chats tests =
     map (\<lambda>u.
        \<lparr>ua_id = u_id u,
         primera_actividad = u_created_at u,
         ultima_actividad =
           sql_GREATEST
             [u_updated_at u,
              Some (IFNULL (sql_MAX (map c_updated_at (filter (\<lambda>c. c_user_id c = u_id u) chats)))
                      epoch_1970),
              Some (IFNULL (sql_MAX (map (\<lambda>t. Some (rt_fecha t))
                                      (filter (\<lambda>t. rt_usuario_id t = u_id u) tests)))
                      epoch_1970)]\<rparr>)
       users"

text \<open>\<open>meses_uso\<close>: \<open>TIMESTAMPDIFF(MONTH, primera_actividad, ultima_actividad)\<close> per user.\<close>

definition meses_uso :: "user_activity_row list \<Rightarrow> int option list" where
  "meses_uso ua =
     map (\<lambda>r. case (primera_actividad r, ultima_actividad r) of
                (Some p, Some u) \<Rightarrow> Some (TIMESTAMPDIFF_MONTH p u)
              | _ \<Rightarrow> None) ua"

text \<open>
  \<open>usuarios_mes_anterior\<close> (\<open>n = 2\<close>) and \<open>usuarios_este_mes\<close> (\<open>n = 1\<close>):
  \<open>COUNT(*) ... WHERE ultima_actividad >= DATE_SUB(NOW(), INTERVAL n MONTH)\<close>.
\<close>

definition usuarios_activos :: "nat \<Rightarrow> datetime \<Rightarrow> user_activity_row list \<Rightarrow> int" where
  "usuarios_activos n now ua =
     int (length (filter (\<lambda>r. case ultima_actividad r of
                                None \<Rightarrow> False
                              | Some u \<Rightarrow> sub_months n now \<le> u) ua))"

text \<open>
  The final \<open>SELECT\<close> of the retention query: an aggregate (\<open>AVG\<close>) without \<open>GROUP BY\<close>,
  hence exactly one row.
\<close>

definition sql_retencion ::
  "datetime \<Rightarrow> users_row list \<Rightarrow> chats_row list \<Rightarrow> resultados_test_row list \<Rightarrow> Retencion list" where
  "sql_retencion now users chats tests =
     (let ua = user_activity users chats tests;
          este_mes = usuarios_activos 1 now ua;
          mes_anterior = usuarios_activos 2 now ua
      in [\<lparr>promedio_meses_uso = of_sql (sql_ROUND1 (sql_AVG (meses_uso ua))),
           usuarios_activos_este_mes = Value este_mes,
           usuarios_activos_mes_anterior = Value mes_anterior,
           tasa_retencion =
             of_sql (sql_ROUND1 (sql_times
               (sql_div (Some (of_int este_mes)) (Some (of_int mes_anterior))) 100))\<rparr>])"

subsection \<open>The weekly message activity query\<close>

text \<open>The columns of \<open>chat_messages\<close> the query reads.\<close>

record chat_messages_row =
  cm_created_at :: "datetime option"
  cm_is_bot :: "int option"

text \<open>
  The abbreviated weekday names of the locale \<open>en_US\<close>, Monday first. \<open>en_US\<close> is the
  default of \<open>lc_time_names\<close>, which the code does not change and which the \<open>FIELD\<close> list
  of the query and the keys of \<open>diasTraducidos\<close> assume.
\<close>

definition abbreviated_day_names :: "string list" where
  "abbreviated_day_names = [''Mon'', ''Tue'', ''Wed'', ''Thu'', ''Fri'', ''Sat'', ''Sun'']"

text \<open>\<open>DATE_FORMAT(d, '%a')\<close>: the abbreviated name of the weekday of \<open>d\<close>.\<close>

fun DATE_FORMAT_a :: "datetime \<Rightarrow> string" where
  "DATE_FORMAT_a (y, m, d, t) = abbreviated_day_names ! nat ((day_number y m d + 1) mod 7)"

text \<open>\<open>created_at >= NOW() - INTERVAL n DAY\<close>.\<close>

fun within_last_days :: "nat \<Rightarrow> datetime \<Rightarrow> datetime \<Rightarrow> bool" where
  "within_last_days n (yn, mn, dn, tn) (yc, mc, dc, tc) \<longleftrightarrow>
     (day_number yn mn dn - int n, tn) \<le> (day_number yc mc dc, tc)"

text \<open>
  \<open>SELECT DATE_FORMAT(created_at, '%a') as dia, COUNT(*) as mensajes, SUM(is_bot) as chatbots
   FROM chat_messages WHERE created_at >= NOW() - INTERVAL 7 DAY GROUP BY dia
   ORDER BY FIELD(dia, 'Mon', 'Tue', 'Wed', 'Thu', 'Fri', 'Sat', 'Sun')\<close>;
  a \<open>NULL\<close> \<open>created_at\<close> does not satisfy the comparison, \<open>SUM\<close> skips \<open>NULL\<close>.
\<close>

definition sql_messageActivity :: "datetime \<Rightarrow> chat_messages_row list \<Rightarrow> message_activity_row list" where
  "sql_messageActivity now chat_messages =
     (let recent = List.map_filter
            (\<lambda>msg. case cm_created_at msg of
                     None \<Rightarrow> None
                   | Some created_at \<Rightarrow>
                       if within_last_days 7 now created_at
                       then Some (DATE_FORMAT_a created_at, cm_is_bot msg) else None)
            chat_messages
      in sort_key (\<lambda>row. FIELD (ma_dia row) [''Mon'', ''Tue'', ''Wed'', ''Thu'', ''Fri'', ''Sat'', ''Sun''])
           (map (\<lambda>d. \<lparr>ma_dia = d,
                        ma_mensajes = int (length (filter (\<lambda>p. fst p = d) recent)),
                        ma_chatbots = sql_SUM (List.map_filter snd (filter (\<lambda>p. fst p = d) recent))\<rparr>)
              (remdups (map fst recent))))"

subsection \<open>\<open>JSON.parse\<close>\<close>

text \<open>
  A parsed JSON text. A number carries its lexeme and a string the characters between
  its quotes (escape sequences as written), so that no floating point is involved; an
  object is the list of its members in the order of the text.
\<close>

datatype json =
    JNull
  | JBool bool
  | JNumber string
  | JString string
  | JArray "json list"
  | JObject "(string \<times> json) list"

text \<open>JSON white space: space, tab, line feed, carriage return.\<close>

definition is_json_ws :: "char \<Rightarrow> bool" where
  "is_json_ws c \<longleftrightarrow> c = CHR '' '' \<or> c = CHR 0x09 \<or> c = CHR 0x0A \<or> c = CHR 0x0D"

definition skip_ws :: "string \<Rightarrow> string" where
  "skip_ws s = dropWhile is_json_ws s"

definition is_digit :: "char \<Rightarrow> bool" where
  "is_digit c \<longleftrightarrow> c \<in> set ''0123456789''"

definition is_hex_digit :: "char \<Rightarrow> bool" where
  "is_hex_digit c \<longleftrightarrow> c \<in> set ''0123456789abcdefABCDEF''"

text \<open>
  The rest of a string literal after its opening quote: the characters up to the closing
  quote, and what follows it. A control character, an unknown escape or a missing closing
  quote is a syntax error. \<open>CHR 0x22\<close> is the double quote, \<open>CHR 0x5C\<close> the backslash.
\<close>

fun scan_string :: "string \<Rightarrow> (string \<times> string) option" where
  "scan_string [] = None"
| "scan_string (c # cs) =
     (if c = CHR 0x22 then Some ([], cs)
      else if c = CHR 0x5C then
        (case cs of
           [] \<Rightarrow> None
         | e # cs1 \<Rightarrow>
             if e \<in> set [CHR 0x22, CHR 0x5C, CHR ''/'', CHR ''b'', CHR ''f'', CHR ''n'', CHR ''r'', CHR ''t'']
             then map_option (\<lambda>(body, rest). (c # e # body, rest)) (scan_string cs1)
             else if e = CHR ''u'' then
               (case cs1 of
                  h1 # h2 # h3 # h4 # cs2 \<Rightarrow>
                    if is_hex_digit h1 \<and> is_hex_digit h2 \<and> is_hex_digit h3 \<and> is_hex_digit h4
                    then map_option (\<lambda>(body, rest). (c # e # h1 # h2 # h3 # h4 # body, rest))
                           (scan_string cs2)
                    else None
                | _ \<Rightarrow> None)
             else None)
      else if (of_char c :: nat) < 32 then None
      else map_option (\<lambda>(body, rest). (c # body, rest)) (scan_string cs))"

text \<open>
  A number: an optional minus, \<open>0\<close> or a digit sequence without leading zero, an optional
  fraction, an optional exponent. Returns the lexeme and what follows it.
\<close>

definition scan_int_part :: "string \<Rightarrow> (string \<times> string) option" where
  "scan_int_part s =
     (case s of
        [] \<Rightarrow> None
      | d # r \<Rightarrow>
          if d = CHR ''0'' then Some ([d], r)
          else if is_digit d then Some (d # takeWhile is_digit r, dropWhile is_digit r)
          else None)"

definition scan_frac_part :: "string \<Rightarrow> (string \<times> string) option" where
  "scan_frac_part s =
     (case s of
        [] \<Rightarrow> Some ([], s)
      | p # r \<Rightarrow>
          if p = CHR ''.'' then
            (if takeWhile is_digit r = [] then None
             else Some (p # takeWhile is_digit r, dropWhile is_digit r))
          else Some ([], s))"

definition scan_exp_part :: "string \<Rightarrow> (string \<times> string) option" where
  "scan_exp_part s =
     (case s of
        [] \<Rightarrow> Some ([], s)
      | e # r \<Rightarrow>
          if e = CHR ''e'' \<or> e = CHR ''E'' then
            (let sgn = (case r of [] \<Rightarrow> [] | g # _ \<Rightarrow> if g = CHR ''+'' \<or> g = CHR ''-'' then [g] else []);
                 r1 = drop (length sgn) r
             in if takeWhile is_digit r1 = [] then None
                else Some (e # sgn @ takeWhile is_digit r1, dropWhile is_digit r1))
          else Some ([], s))"

definition scan_number :: "string \<Rightarrow> (string \<times> string) option" where
  "scan_number s =
     (let sgn = (case s of [] \<Rightarrow> [] | g # _ \<Rightarrow> if g = CHR ''-'' then [g] else [])
      in case scan_int_part (drop (length sgn) s) of
           None \<Rightarrow> None
         | Some (ip, r1) \<Rightarrow>
             (case scan_frac_part r1 of
                None \<Rightarrow> None
              | Some (fp, r2) \<Rightarrow>
                  (case scan_exp_part r2 of
                     None \<Rightarrow> None
                   | Some (ep, r3) \<Rightarrow> Some (sgn @ ip @ fp @ ep, r3))))"

text \<open>
  The recursive descent over values, array elements and object members. The first
  argument bounds the number of nested calls; every second call at the latest consumes a
  character, so \<open>JSON_parse\<close> below starts it high enough for any text. The string
  argument starts at the first character of the item (white space already skipped).
\<close>

fun parse_value :: "nat \<Rightarrow> string \<Rightarrow> (json \<times> string) option"
  and parse_elements :: "nat \<Rightarrow> string \<Rightarrow> (json list \<times> string) option"
  and parse_members :: "nat \<Rightarrow> string \<Rightarrow> ((string \<times> json) list \<times> string) option" where
  "parse_value 0 s = None"
| "parse_value (Suc n) s =
     (case s of
        [] \<Rightarrow> None
      | c # r \<Rightarrow>
          if c = CHR ''{'' then
            (case skip_ws r of
               [] \<Rightarrow> None
             | c1 # r1 \<Rightarrow>
                 if c1 = CHR ''}'' then Some (JObject [], r1)
                 else map_option (\<lambda>(ms, rest). (JObject ms, rest)) (parse_members n (c1 # r1)))
          else if c = CHR ''['' then
            (case skip_ws r of
               [] \<Rightarrow> None
             | c1 # r1 \<Rightarrow>
                 if c1 = CHR '']'' then Some (JArray [], r1)
                 else map_option (\<lambda>(vs, rest). (JArray vs, rest)) (parse_elements n (c1 # r1)))
          else if c = CHR 0x22 then
            map_option (\<lambda>(body, rest). (JString body, rest)) (scan_string r)
          else if take 4 s = ''true'' then Some (JBool True, drop 4 s)
          else if take 5 s = ''false'' then Some (JBool False, drop 5 s)
          else if take 4 s = ''null'' then Some (JNull, drop 4 s)
          else map_option (\<lambda>(lexeme, rest). (JNumber lexeme, rest)) (scan_number s))"
| "parse_elements 0 s = None"
| "parse_elements (Suc n) s =
     (case parse_value n s of
        None \<Rightarrow> None
      | Some (v, r) \<Rightarrow>
          (case skip_ws r of
             [] \<Rightarrow> None
           | c # r1 \<Rightarrow>
               if c = CHR '','' then
                 map_option (\<lambda>(vs, rest). (v # vs, rest)) (parse_elements n (skip_ws r1))
               else if c = CHR '']'' then Some ([v], r1)
               else None))"
| "parse_members 0 s = None"
| "parse_members (Suc n) s =
     (case s of
        [] \<Rightarrow> None
      | q # r \<Rightarrow>
          if q \<noteq> CHR 0x22 then None
          else
            (case scan_string r of
               None \<Rightarrow> None
             | Some (k, r1) \<Rightarrow>
                 (case skip_ws r1 of
                    [] \<Rightarrow> None
                  | c1 # r2 \<Rightarrow>
                      if c1 \<noteq> CHR '':'' then None
                      else
                        (case parse_value n (skip_ws r2) of
                           None \<Rightarrow> None
                         | Some (v, r3) \<Rightarrow>
                             (case skip_ws r3 of
                                [] \<Rightarrow> None
                              | c3 # r4 \<Rightarrow>
                                  if c3 = CHR '','' then
                                    map_option (\<lambda>(ms, rest). ((k, v) # ms, rest))
                                      (parse_members n (skip_ws r4))
                                  else if c3 = CHR ''}'' then Some ([(k, v)], r4)
                                  else None)))))"

text \<open>
  \<open>JSON.parse(text)\<close>: one value between optional white space, nothing else;
  \<^const>\<open>None\<close> stands for the \<open>SyntaxError\<close> it throws.
\<close>

definition JSON_parse :: "string \<Rightarrow> json option" where
  "JSON_parse text =
     (case parse_value (2 * length text + 2) (skip_ws text) of
        None \<Rightarrow> None
      | Some (v, rest) \<Rightarrow> if skip_ws rest = [] then Some v else None)"

subsection \<open>\<open>runGeminiAgent\<close>\<close>

text \<open>The six agents, named as the \<open>agentName\<close> arguments of the calls.\<close>

datatype agent =
    AnalisisEfectividad
  | AnalisisPatrones
  | AnalisisCorrelaciones
  | AnalisisTendencias
  | AnalisisRecomendaciones
  | AnalisisRespuestas

fun agentName :: "agent \<Rightarrow> string" where
  "agentName AnalisisEfectividad = ''AnalisisEfectividad''"
| "agentName AnalisisPatrones = ''AnalisisPatrones''"
| "agentName AnalisisCorrelaciones = ''AnalisisCorrelaciones''"
| "agentName AnalisisTendencias = ''AnalisisTendencias''"
| "agentName AnalisisRecomendaciones = ''AnalisisRecomendaciones''"
| "agentName AnalisisRespuestas = ''AnalisisRespuestas''"

text \<open>
  \<open>analysisText.replace(/```json|```/g, '')\<close>: one pass from the left; at each position a
  fence with the word \<open>json\<close> is removed in preference to a bare fence.
\<close>

function remove_fences :: "string \<Rightarrow> string" where
  "remove_fences [] = []"
| "remove_fences (c # cs) =
     (if take 7 (c # cs) = ''```json'' then remove_fences (drop 6 cs)
      else if take 3 (c # cs) = ''```'' then remove_fences (drop 2 cs)
      else c # remove_fences cs)"
  by pat_completeness auto
termination
  by (relation "measure length") auto

text \<open>
  \<open>String.prototype.trim\<close>: white space and line terminators are removed at both ends
  (tab, line feed, vertical tab, form feed, carriage return, space, no-break space).
\<close>

definition is_js_space :: "char \<Rightarrow> bool" where
  "is_js_space c \<longleftrightarrow>
     c \<in> set [CHR 0x09, CHR 0x0A, CHR 0x0B, CHR 0x0C, CHR 0x0D, CHR 0x20, CHR 0xA0]"

definition js_trim :: "string \<Rightarrow> string" where
  "js_trim s = rev (dropWhile is_js_space (rev (dropWhile is_js_space s)))"

text \<open>
  \<open>analysisText.match(/\{[\s\S]*\}/)\<close>: the leftmost match starts at the first opening
  brace and, the star being greedy, ends at the last closing brace after it; \<open>null\<close>
  when there is no such pair.
\<close>

definition match_braces :: "string \<Rightarrow> string option" where
  "match_braces s =
     (let from_open = dropWhile (\<lambda>c. c \<noteq> CHR ''{'') s;
          m = rev (dropWhile (\<lambda>c. c \<noteq> CHR ''}'') (rev from_open))
      in if m = [] then None else Some m)"

definition agent_error :: "agent \<Rightarrow> js_thrown" where
  "agent_error a =
     JsError (''El agente '' @ agentName a @ '' no gener'' @ [CHR 0xF3] @ '' JSON v''
              @ [CHR 0xE1] @ ''lido'')"

text \<open>
  \<open>runGeminiAgent\<close>. The argument \<open>backend\<close> gives, for each agent, what
  \<open>model.generateContent(formulationPrompt)\<close> and \<open>response.text()\<close> yield for the
  agent's prompt in this run: the text, or the value thrown. The outer \<open>catch\<close> logs and
  throws the same value again.
\<close>

definition runGeminiAgent :: "(agent \<Rightarrow> js_thrown + string) \<Rightarrow> agent \<Rightarrow> js_thrown + json" where
  "runGeminiAgent backend a =
     (case backend a of
        Inl thrown \<Rightarrow> Inl thrown
      | Inr text \<Rightarrow>
          (let analysisText = js_trim (remove_fences text)
           in case JSON_parse analysisText of
                Some v \<Rightarrow> Inr v
              | None \<Rightarrow>
                  (case match_braces analysisText of
                     Some jsonMatch \<Rightarrow>
                       (case JSON_parse jsonMatch of
                          Some v \<Rightarrow> Inr v
                        | None \<Rightarrow> Inl (agent_error a))
                   | None \<Rightarrow> Inl (agent_error a))))"

text \<open>
  Following the words of the specification (section 4.4, step 4), not the source: the
  first balanced braces-delimited substring. \<open>scan_balanced d s\<close> reads \<open>s\<close> with \<open>d\<close>
  braces open and returns the text up to the brace that closes the outermost one.
\<close>

fun scan_balanced :: "nat \<Rightarrow> string \<Rightarrow> string option" where
  "scan_balanced d [] = None"
| "scan_balanced d (c # cs) =
     (if c = CHR ''{'' then map_option ((#) c) (scan_balanced (Suc d) cs)
      else if c = CHR ''}'' then
        (if d \<le> 1 then Some [c] else map_option ((#) c) (scan_balanced (d - 1) cs))
      else map_option ((#) c) (scan_balanced d cs))"

fun first_balanced_braces :: "string \<Rightarrow> string option" where
  "first_balanced_braces [] = None"
| "first_balanced_braces (c # cs) =
     (if c = CHR ''{'' then
        (case scan_balanced 0 (c # cs) of
           Some m \<Rightarrow> Some m
         | None \<Rightarrow> first_balanced_braces cs)
      else first_balanced_braces cs)"

text \<open>
  Following the words of the specification (section 4.4, steps 2 to 5): the runner with
  the first balanced braces-delimited substring as its fallback extraction.
\<close>

definition spec_agent_runner :: "(agent \<Rightarrow> js_thrown + string) \<Rightarrow> agent \<Rightarrow> js_thrown + json" where
  "spec_agent_runner backend a =
     (case backend a of
        Inl thrown \<Rightarrow> Inl thrown
      | Inr text \<Rightarrow>
          (let analysisText = js_trim (remove_fences text)
           in case JSON_parse analysisText of
                Some v \<Rightarrow> Inr v
              | None \<Rightarrow>
                  (case first_balanced_braces analysisText of
                     Some sub \<Rightarrow>
                       (case JSON_parse sub of
                          Some v \<Rightarrow> Inr v
                        | None \<Rightarrow> Inl (agent_error a))
                   | None \<Rightarrow> Inl (agent_error a))))"

subsection \<open>\<open>collectRawData\<close>\<close>

text \<open>The remaining interfaces of the source.\<close>

record UserStats =
  us_total :: int
  nuevos_este_mes :: int
  tests_totales :: int
  mensajes_totales :: int

record CorrelationData =
  score :: string
  promedio_mensajes :: "rat option"

record PatronUso =
  hora :: int
  pu_mensajes :: int

record RespuestaExtra =
  respuestas_extra :: string

record ChatAnalytic =
  chat_id :: int
  chat_name :: "string option"
  user_gender :: "string option"
  user_age :: "int option"
  message_count :: int
  max_ansiedad :: "int option"
  max_depresion :: "int option"

record RawData =
  userStats :: UserStats
  anxietyLevels :: "DataPoint list"
  depressionLevels :: "DataPoint list"
  ageDistribution :: "AgeDistributionPoint list"
  genderDistribution :: "DataPoint list"
  monthlyActivity :: "MonthlyData list"
  messageActivity :: "MessageActivity list"
  correlationData :: "CorrelationData list"
  efectividad :: Efectividad
  retencion :: Retencion
  patronesUso :: "PatronUso list"
  respuestasExtra :: "RespuestaExtra list"
  chatAnalytics :: "ChatAnalytic list"

text \<open>
  What \<open>executeQuery\<close> yields for each of the seventeen queries of \<open>collectRawData\<close>, in
  source order: the rows, or the value thrown (\<open>executeQuery\<close> logs the error of the
  connection and throws it again).
\<close>

record query_results =
  q_userCount :: "js_thrown + count_row list"
  q_newUsersThisMonth :: "js_thrown + count_row list"
  q_testCount :: "js_thrown + count_row list"
  q_messageCount :: "js_thrown + count_row list"
  q_anxietyLevels :: "js_thrown + DataPoint list"
  q_depressionLevels :: "js_thrown + DataPoint list"
  q_ageDistribution :: "js_thrown + AgeDistributionPoint list"
  q_genderDistribution :: "js_thrown + DataPoint list"
  q_monthlyUsers :: "js_thrown + monthly_users_row list"
  q_monthlyTests :: "js_thrown + monthly_tests_row list"
  q_messageActivity :: "js_thrown + message_activity_row list"
  q_correlationData :: "js_thrown + CorrelationData list"
  q_efectividad :: "js_thrown + Efectividad list"
  q_retencion :: "js_thrown + Retencion list"
  q_patronesUso :: "js_thrown + PatronUso list"
  q_respuestasExtra :: "js_thrown + RespuestaExtra list"
  q_chatAnalytics :: "js_thrown + ChatAnalytic list"

text \<open>\<open>const x = await p; ...\<close>: a rejected promise throws out of the function.\<close>

definition await :: "'e + 'a \<Rightarrow> ('a \<Rightarrow> 'e + 'b) \<Rightarrow> 'e + 'b" where
  "await p k = (case p of Inl thrown \<Rightarrow> Inl thrown | Inr x \<Rightarrow> k x)"

text \<open>\<open>rows[0]?.total || 0\<close>.\<close>

definition first_total_or_0 :: "count_row list \<Rightarrow> int" where
  "first_total_or_0 rows =
     (case rows of [] \<Rightarrow> 0 | r # _ \<Rightarrow> if cr_total r \<noteq> 0 then cr_total r else 0)"

text \<open>\<open>efectividad[0] || { porcentaje_mejora: 0 }\<close>; a row object is truthy.\<close>

definition first_efectividad :: "Efectividad list \<Rightarrow> Efectividad" where
  "first_efectividad rows =
     (case rows of
        [] \<Rightarrow> \<lparr>total_usuarios = Absent, mejoraron = Absent, porcentaje_mejora = Value 0\<rparr>
      | r # _ \<Rightarrow> r)"

text \<open>\<open>retencion[0] || { promedio_meses_uso: 0, tasa_retencion: 0 }\<close>.\<close>

definition first_retencion :: "Retencion list \<Rightarrow> Retencion" where
  "first_retencion rows =
     (case rows of
        [] \<Rightarrow> \<lparr>promedio_meses_uso = Value 0, usuarios_activos_este_mes = Absent,
               usuarios_activos_mes_anterior = Absent, tasa_retencion = Value 0\<rparr>
      | r # _ \<Rightarrow> r)"

definition collectRawData :: "query_results \<Rightarrow> js_thrown + RawData" where
  "collectRawData q =
     await (q_userCount q) (\<lambda>userCount.
     await (q_newUsersThisMonth q) (\<lambda>newUsersThisMonth.
     await (q_testCount q) (\<lambda>testCount.
     await (q_messageCount q) (\<lambda>messageCount.
     await (q_anxietyLevels q) (\<lambda>anxietyLevels.
     await (q_depressionLevels q) (\<lambda>depressionLevels.
     await (q_ageDistribution q) (\<lambda>ageDistribution.
     await (q_genderDistribution q) (\<lambda>genderDistribution.
     await (q_monthlyUsers q) (\<lambda>monthlyUsers.
     await (q_monthlyTests q) (\<lambda>monthlyTests.
     await (q_messageActivity q) (\<lambda>messageActivity.
     await (q_correlationData q) (\<lambda>correlationData.
     await (q_efectividad q) (\<lambda>efectividad.
     await (q_retencion q) (\<lambda>retencion.
     await (q_patronesUso q) (\<lambda>patronesUso.
     await (q_respuestasExtra q) (\<lambda>respuestasExtra.
     await (q_chatAnalytics q) (\<lambda>chatAnalytics.
       Inr \<lparr>userStats =
              \<lparr>us_total = first_total_or_0 userCount,
               nuevos_este_mes = first_total_or_0 newUsersThisMonth,
               tests_totales = first_total_or_0 testCount,
               mensajes_totales = first_total_or_0 messageCount\<rparr>,
            anxietyLevels = anxietyLevels,
            depressionLevels = depressionLevels,
            ageDistribution = ageDistribution,
            genderDistribution = genderDistribution,
            monthlyActivity = combinedMonthlyData monthlyUsers monthlyTests,
            messageActivity = messageActivityTranslated messageActivity,
            correlationData = correlationData,
            efectividad = first_efectividad efectividad,
            retencion = first_retencion retencion,
            patronesUso = patronesUso,
            respuestasExtra = respuestasExtra,
            chatAnalytics = chatAnalytics\<rparr>)))))))))))))))))"

subsection \<open>\<open>analyzeDataWithGeminiAgents\<close> and \<open>GET\<close>\<close>

text \<open>\<open>interface GeminiInsights\<close>; \<open>JSON.parse(...) as T\<close> checks no shape, so each field is a JSON value.\<close>

record GeminiInsights =
  effectiveness :: json
  significantPatterns :: json
  correlations :: json
  temporalTrends :: json
  recommendations :: json
  responseAnalysis :: json

record EnhancedData = RawData +
  geminiInsights :: GeminiInsights

text \<open>\<open>{ ...rawData, geminiInsights: insights }\<close>.\<close>

definition with_insights :: "RawData \<Rightarrow> GeminiInsights \<Rightarrow> EnhancedData" where
  "with_insights rawData insights =
     \<lparr>userStats = userStats rawData,
      anxietyLevels = anxietyLevels rawData,
      depressionLevels = depressionLevels rawData,
      ageDistribution = ageDistribution rawData,
      genderDistribution = genderDistribution rawData,
      monthlyActivity = monthlyActivity rawData,
      messageActivity = messageActivity rawData,
      correlationData = correlationData rawData,
      efectividad = efectividad rawData,
      retencion = retencion rawData,
      patronesUso = patronesUso rawData,
      respuestasExtra = respuestasExtra rawData,
      chatAnalytics = chatAnalytics rawData,
      geminiInsights = insights\<rparr>"

text \<open>The literal of the \<open>catch\<close> block.\<close>

definition fallback_insights :: GeminiInsights where
  "fallback_insights =
     \<lparr>effectiveness =
        JObject [(''insight'', JString ''Error al analizar efectividad''), (''score'', JNumber ''0'')],
      significantPatterns = JArray [JString ''Error al analizar patrones''],
      correlations = JArray [JString ''Error al analizar correlaciones''],
      temporalTrends = JArray [JString ''Error al analizar tendencias''],
      recommendations = JArray [JString ''Error al generar recomendaciones''],
      responseAnalysis =
        JObject [(''commonPatterns'', JArray []),
                 (''keyInsights'', JArray [JString ''Error al analizar respuestas'']),
                 (''recommendedActions'', JArray [])]\<rparr>"

text \<open>
  \<open>analyzeDataWithGeminiAgents\<close>: \<open>await Promise.all([...])\<close> over the six agents inside one
  \<open>try\<close>; \<open>Promise.all\<close> rejects as soon as one of its promises does, and the \<open>catch\<close>
  returns the literal above for all six fields.
\<close>

definition analyzeDataWithGeminiAgents ::
  "(agent \<Rightarrow> js_thrown + string) \<Rightarrow> RawData \<Rightarrow> EnhancedData" where
  "analyzeDataWithGeminiAgents backend rawData =
     (case (runGeminiAgent backend AnalisisEfectividad,
            runGeminiAgent backend AnalisisPatrones,
            runGeminiAgent backend AnalisisCorrelaciones,
            runGeminiAgent backend AnalisisTendencias,
            runGeminiAgent backend AnalisisRecomendaciones,
            runGeminiAgent backend AnalisisRespuestas) of
        (Inr effectivenessAnalysis, Inr significantPatternsAnalysis, Inr correlationsAnalysis,
         Inr temporalTrendsAnalysis, Inr recommendationsAnalysis, Inr responseAnalysis') \<Rightarrow>
          with_insights rawData
            \<lparr>effectiveness = effectivenessAnalysis,
             significantPatterns = significantPatternsAnalysis,
             correlations = correlationsAnalysis,
             temporalTrends = temporalTrendsAnalysis,
             recommendations = recommendationsAnalysis,
             responseAnalysis = responseAnalysis'\<rparr>
      | _ \<Rightarrow> with_insights rawData fallback_insights)"

text \<open>The response of the endpoint: the HTTP status and the JSON body.\<close>

record dashboard_response =
  status :: nat
  success :: bool
  stats :: "EnhancedData option"
  error :: "string option"

text \<open>\<open>error instanceof Error ? error.message : 'Error desconocido'\<close>.\<close>

fun errorMessage :: "js_thrown \<Rightarrow> string" where
  "errorMessage (JsError message) = message"
| "errorMessage JsOther = ''Error desconocido''"

definition GET :: "query_results \<Rightarrow> (agent \<Rightarrow> js_thrown + string) \<Rightarrow> dashboard_response" where
  "GET q backend =
     (case collectRawData q of
        Inr rawData \<Rightarrow>
          \<lparr>status = 200, success = True,
           stats = Some (analyzeDataWithGeminiAgents backend rawData), error = None\<rparr>
      | Inl thrown \<Rightarrow>
          \<lparr>status = 500, success = False, stats = None, error = Some (errorMessage thrown)\<rparr>)"

subsection \<open>The gateway over a store\<close>

text \<open>
  The results of the queries modelled above when they run at time \<open>now\<close> on the tables
  \<open>users\<close>, \<open>chats\<close> and \<open>resultados_test\<close> and the connection does not fail for them; the
  results of the other queries are taken from \<open>other\<close>.
\<close>

definition store_results ::
  "datetime \<Rightarrow> users_row list \<Rightarrow> chats_row list \<Rightarrow> resultados_test_row list
     \<Rightarrow> query_results \<Rightarrow> query_results" where
  "store_results now users chats tests other =
     other\<lparr>q_userCount := Inr (sql_count users),
            q_newUsersThisMonth := Inr (sql_newUsersThisMonth now users),
            q_testCount := Inr (sql_count tests),
            q_ageDistribution := Inr (sql_ageDistribution users),
            q_genderDistribution := Inr (sql_genderDistribution users),
            q_efectividad := Inr (sql_efectividad tests),
            q_retencion := Inr (sql_retencion now users chats tests)\<rparr>"

text \<open>
  The empty store at time \<open>now\<close>: the counting query on \<open>chat_messages\<close> returns its one
  row, every grouped or plain query returns no row.
\<close>

definition empty_store_results :: "datetime \<Rightarrow> query_results" where
  "empty_store_results now =
     store_results now [] [] []
       \<lparr>q_userCount = Inr [], q_newUsersThisMonth = Inr [], q_testCount = Inr [],
        q_messageCount = Inr (sql_count ([] :: unit list)),
        q_anxietyLevels = Inr [], q_depressionLevels = Inr [],
        q_ageDistribution = Inr [], q_genderDistribution = Inr [],
        q_monthlyUsers = Inr [], q_monthlyTests = Inr [], q_messageActivity = Inr [],
        q_correlationData = Inr [], q_efectividad = Inr [], q_retencion = Inr [],
        q_patronesUso = Inr [], q_respuestasExtra = Inr [], q_chatAnalytics = Inr []\<rparr>"

text \<open>
  A backend whose answers parse for five agents and whose answer to the recommendations
  agent is no JSON (scenario C of the specification). \<open>CHR 0x22\<close> is the double quote.
\<close>

fun malformed_recommendations_backend :: "agent \<Rightarrow> js_thrown + string" where
  "malformed_recommendations_backend AnalisisEfectividad =
     Inr (''```json'' @ [CHR 0x0A] @ ''{'' @ [CHR 0x22] @ ''insight'' @ [CHR 0x22] @ '': ''
          @ [CHR 0x22] @ ''ok'' @ [CHR 0x22] @ '', '' @ [CHR 0x22] @ ''score'' @ [CHR 0x22]
          @ '': 80}'' @ [CHR 0x0A] @ ''```'')"
| "malformed_recommendations_backend AnalisisPatrones =
     Inr (''['' @ [CHR 0x22] @ ''p'' @ [CHR 0x22] @ '']'')"
| "malformed_recommendations_backend AnalisisCorrelaciones =
     Inr (''['' @ [CHR 0x22] @ ''c'' @ [CHR 0x22] @ '']'')"
| "malformed_recommendations_backend AnalisisTendencias =
     Inr (''['' @ [CHR 0x22] @ ''t'' @ [CHR 0x22] @ '']'')"
| "malformed_recommendations_backend AnalisisRecomendaciones =
     Inr ''No tengo recomendaciones''"
| "malformed_recommendations_backend AnalisisRespuestas =
     Inr (''{'' @ [CHR 0x22] @ ''commonPatterns'' @ [CHR 0x22] @ '': [], ''
          @ [CHR 0x22] @ ''keyInsights'' @ [CHR 0x22] @ '': [], ''
          @ [CHR 0x22] @ ''recommendedActions'' @ [CHR 0x22] @ '': []}'')"

text \<open>The same backend with a JSON array as its answer to the recommendations agent.\<close>

fun wellformed_backend :: "agent \<Rightarrow> js_thrown + string" where
  "wellformed_backend AnalisisRecomendaciones = Inr (''['' @ [CHR 0x22] @ ''r'' @ [CHR 0x22] @ '']'')"
| "wellformed_backend a = malformed_recommendations_backend a"

text \<open>A backend that answers every agent with two JSON objects, one after the other.\<close>

definition two_objects_text :: string where
  "two_objects_text =
     ''{'' @ [CHR 0x22] @ ''a'' @ [CHR 0x22] @ '':1} {'' @ [CHR 0x22] @ ''b'' @ [CHR 0x22] @ '':2}''"

definition two_objects_backend :: "agent \<Rightarrow> js_thrown + string" where
  "two_objects_backend a = Inr two_objects_text"

text \<open>
  A backend that answers every agent with a JSON object inside a sentence, the answer
  wrapped in a code fence and padded with white space. \<open>CHR 0x0A\<close> is the line feed.
\<close>

definition fenced_prose_text :: string where
  "fenced_prose_text =
     ''  ```json'' @ [CHR 0x0A] @ ''Resultado: {'' @ [CHR 0x22] @ ''a'' @ [CHR 0x22] @ '':1} fin''
     @ [CHR 0x0A] @ ''```'' @ [CHR 0x0A]"

definition object_in_prose_backend :: "agent \<Rightarrow> js_thrown + string" where
  "object_in_prose_backend a = Inr fenced_prose_text"

text \<open>
  Following the words of the specification ("new this month": from the first day of the
  current calendar month to now), not the source.
\<close>

fun created_this_calendar_month :: "datetime \<Rightarrow> users_row \<Rightarrow> bool" where
  "created_this_calendar_month (y, m, rest) u =
     (case u_created_at u of
        None \<Rightarrow> False
      | Some created_at \<Rightarrow> (y, m, 1, 0, 0, 0) \<le> created_at \<and> created_at \<le> (y, m, rest))"

text \<open>
  The values thrown by the queries for which the connection fails, in the order in which
  \<open>collectRawData\<close> awaits the queries.
\<close>

definition failure :: "js_thrown + 'a \<Rightarrow> js_thrown list" where
  "failure p = (case p of Inl thrown \<Rightarrow> [thrown] | Inr rows \<Rightarrow> [])"

definition query_failures :: "query_results \<Rightarrow> js_thrown list" where
  "query_failures q =
     failure (q_userCount q) @ failure (q_newUsersThisMonth q) @ failure (q_testCount q)
     @ failure (q_messageCount q) @ failure (q_anxietyLevels q) @ failure (q_depressionLevels q)
     @ failure (q_ageDistribution q) @ failure (q_genderDistribution q)
     @ failure (q_monthlyUsers q) @ failure (q_monthlyTests q) @ failure (q_messageActivity q)
     @ failure (q_correlationData q) @ failure (q_efectividad q) @ failure (q_retencion q)
     @ failure (q_patronesUso q) @ failure (q_respuestasExtra q) @ failure (q_chatAnalytics q)"

definition any_query_fails :: "query_results \<Rightarrow> bool" where
  "any_query_fails q \<longleftrightarrow> query_failures q \<noteq> []"

section \<open>Properties\<close>

subsection \<open>Monthly merge\<close>

lemma find_month_None:
  "find P ts = None \<longleftrightarrow> \<not> (\<exists>t\<in>set ts. P t)"
  by (auto simp: find_None_iff)

lemma find_month_Some:
  "find P ts = Some t \<Longrightarrow> t \<in> set ts \<and> P t"
  by (auto simp: find_Some_iff)

lemma distinct_occurs_once:
  "distinct ks \<Longrightarrow> m \<in> set ks \<Longrightarrow> length (filter (\<lambda>k. k = m) ks) = 1"
proof (induction ks)
  case Nil
  then show ?case by simp
next
  case (Cons k ks)
  show ?case
  proof (cases "k = m")
    case True
    with Cons.prems have "m \<notin> set ks" by simp
    then have "filter (\<lambda>k. k = m) ks = []"
      by (auto simp: filter_empty_conv)
    with True show ?thesis by simp
  next
    case False
    with Cons show ?thesis by simp
  qed
qed

lemma combined_months: "map md_month (combinedMonthlyData us ts) = map mu_month us"
  by (simp add: combinedMonthlyData_def Let_def comp_def)

lemma combined_entry:
  assumes "e \<in> set (combinedMonthlyData us ts)"
  shows "(\<exists>u\<in>set us. md_month e = mu_month u \<and> md_name e = mu_name u
            \<and> md_usuarios e = mu_usuarios u)
       \<and> ((\<exists>t\<in>set ts. mt_month t = md_month e) \<longrightarrow>
            (\<exists>t\<in>set ts. mt_month t = md_month e \<and> md_tests e = mt_tests t))
       \<and> (\<not> (\<exists>t\<in>set ts. mt_month t = md_month e) \<longrightarrow> md_tests e = 0)"
proof -
  from assms obtain u where u: "u \<in> set us"
    and e: "e = \<lparr> md_month = mu_month u, md_name = mu_name u, md_usuarios = mu_usuarios u,
                 md_tests = (case find (\<lambda>test. mt_month test = mu_month u) ts of
                               Some t \<Rightarrow> mt_tests t | None \<Rightarrow> 0) \<rparr>"
    by (auto simp: combinedMonthlyData_def Let_def)
  show ?thesis
  proof (cases "find (\<lambda>test. mt_month test = mu_month u) ts")
    case None
    then have "\<not> (\<exists>t\<in>set ts. mt_month t = mu_month u)"
      by (simp add: find_month_None)
    with u e None show ?thesis by auto
  next
    case (Some t)
    then have "t \<in> set ts \<and> mt_month t = mu_month u"
      by (rule find_month_Some)
    with u e Some show ?thesis by auto
  qed
qed

text \<open>
  Claim C6. For every pair of monthly series, the merged list has the months of the
  new-users series, in the same order: each month has as many entries as the new-users
  series has rows for it, hence exactly one when the month keys of the new-users rows are
  pairwise distinct (the query groups by month). An entry carries the user row's fields;
  its \<open>tests\<close> field is the \<open>tests\<close> of a test-count row with the same month key when
  there is one and \<open>0\<close> when there is none. A month that is not in the new-users series
  has no entry, whatever the test-count series holds.
\<close>

theorem monthly_merge_user_months_authoritative:
  "map md_month (combinedMonthlyData us ts) = map mu_month us
   \<and> (\<forall>m. length (filter (\<lambda>e. md_month e = m) (combinedMonthlyData us ts))
            = length (filter (\<lambda>u. mu_month u = m) us))
   \<and> (distinct (map mu_month us) \<longrightarrow>
        (\<forall>m\<in>set (map mu_month us).
            length (filter (\<lambda>e. md_month e = m) (combinedMonthlyData us ts)) = 1))
   \<and> (\<forall>e\<in>set (combinedMonthlyData us ts).
        (\<exists>u\<in>set us. md_month e = mu_month u \<and> md_name e = mu_name u
            \<and> md_usuarios e = mu_usuarios u)
        \<and> ((\<exists>t\<in>set ts. mt_month t = md_month e) \<longrightarrow>
             (\<exists>t\<in>set ts. mt_month t = md_month e \<and> md_tests e = mt_tests t))
        \<and> (\<not> (\<exists>t\<in>set ts. mt_month t = md_month e) \<longrightarrow> md_tests e = 0))
   \<and> (\<forall>m. m \<notin> set (map mu_month us) \<longrightarrow>
        m \<notin> set (map md_month (combinedMonthlyData us ts)))"
proof -
  let ?c = "combinedMonthlyData us ts"
  have months: "map md_month ?c = map mu_month us"
    by (rule combined_months)
  have count: "\<And>m. length (filter (\<lambda>e. md_month e = m) ?c)
                  = length (filter (\<lambda>k. k = m) (map mu_month us))"
  proof -
    fix m
    have "length (filter (\<lambda>e. md_month e = m) ?c)
            = length (filter (\<lambda>k. k = m) (map md_month ?c))"
      by (simp add: filter_map comp_def)
    then show "length (filter (\<lambda>e. md_month e = m) ?c)
                  = length (filter (\<lambda>k. k = m) (map mu_month us))"
      by (simp only: months)
  qed
  have counts: "\<forall>m. length (filter (\<lambda>e. md_month e = m) ?c)
                  = length (filter (\<lambda>u. mu_month u = m) us)"
    by (simp add: count filter_map comp_def)
  have once: "distinct (map mu_month us) \<longrightarrow>
        (\<forall>m\<in>set (map mu_month us). length (filter (\<lambda>e. md_month e = m) ?c) = 1)"
  proof (intro impI ballI)
    fix m assume d: "distinct (map mu_month us)" and m: "m \<in> set (map mu_month us)"
    from d m have "length (filter (\<lambda>k. k = m) (map mu_month us)) = 1"
      by (rule distinct_occurs_once)
    then show "length (filter (\<lambda>e. md_month e = m) ?c) = 1"
      by (simp only: count)
  qed
  have entries: "\<forall>e\<in>set ?c.
            (\<exists>u\<in>set us. md_month e = mu_month u \<and> md_name e = mu_name u
                \<and> md_usuarios e = mu_usuarios u)
            \<and> ((\<exists>t\<in>set ts. mt_month t = md_month e) \<longrightarrow>
                 (\<exists>t\<in>set ts. mt_month t = md_month e \<and> md_tests e = mt_tests t))
            \<and> (\<not> (\<exists>t\<in>set ts. mt_month t = md_month e) \<longrightarrow> md_tests e = 0)"
    using combined_entry by blast
  have absent: "\<forall>m. m \<notin> set (map mu_month us) \<longrightarrow> m \<notin> set (map md_month ?c)"
    by (simp only: months) simp
  from months counts once entries absent show ?thesis by (intro conjI)
qed

theorem monthly_merge_user_months_authoritative_witness:
  "distinct (map mu_month
      [\<lparr>mu_month = ''2024-01'', mu_name = ''Jan'', mu_usuarios = 3\<rparr>,
       \<lparr>mu_month = ''2024-02'', mu_name = ''Feb'', mu_usuarios = 5\<rparr>])
   \<and> combinedMonthlyData
        [\<lparr>mu_month = ''2024-01'', mu_name = ''Jan'', mu_usuarios = 3\<rparr>,
         \<lparr>mu_month = ''2024-02'', mu_name = ''Feb'', mu_usuarios = 5\<rparr>]
        [\<lparr>mt_month = ''2024-02'', mt_tests = 7\<rparr>,
         \<lparr>mt_month = ''2024-03'', mt_tests = 2\<rparr>]
      = [\<lparr>md_month = ''2024-01'', md_name = ''Jan'', md_usuarios = 3, md_tests = 0\<rparr>,
         \<lparr>md_month = ''2024-02'', md_name = ''Feb'', md_usuarios = 5, md_tests = 7\<rparr>]
   \<and> length (filter (\<lambda>e. md_month e = ''2024-02'') (combinedMonthlyData
        [\<lparr>mu_month = ''2024-01'', mu_name = ''Jan'', mu_usuarios = 3\<rparr>,
         \<lparr>mu_month = ''2024-02'', mu_name = ''Feb'', mu_usuarios = 5\<rparr>]
        [\<lparr>mt_month = ''2024-02'', mt_tests = 7\<rparr>,
         \<lparr>mt_month = ''2024-03'', mt_tests = 2\<rparr>])) = 1
   \<and> ''2024-03'' \<notin> set (map md_month (combinedMonthlyData
        [\<lparr>mu_month = ''2024-01'', mu_name = ''Jan'', mu_usuarios = 3\<rparr>,
         \<lparr>mu_month = ''2024-02'', mu_name = ''Feb'', mu_usuarios = 5\<rparr>]
        [\<lparr>mt_month = ''2024-02'', mt_tests = 7\<rparr>,
         \<lparr>mt_month = ''2024-03'', mt_tests = 2\<rparr>]))"
proof -
  let ?us = "[\<lparr>mu_month = ''2024-01'', mu_name = ''Jan'', mu_usuarios = 3\<rparr>,
              \<lparr>mu_month = ''2024-02'', mu_name = ''Feb'', mu_usuarios = 5\<rparr>]"
  let ?ts = "[\<lparr>mt_month = ''2024-02'', mt_tests = 7\<rparr>,
              \<lparr>mt_month = ''2024-03'', mt_tests = 2\<rparr>]"
  note t = monthly_merge_user_months_authoritative [of ?us ?ts]
  have h: "distinct (map mu_month ?us)" by simp
  have m: "''2024-02'' \<in> set (map mu_month ?us)" by simp
  have n: "''2024-03'' \<notin> set (map mu_month ?us)" by simp
  from t have "\<forall>m\<in>set (map mu_month ?us).
            length (filter (\<lambda>e. md_month e = m) (combinedMonthlyData ?us ?ts)) = 1"
    using h by (elim conjE) (erule mp)
  with m have once: "length (filter (\<lambda>e. md_month e = ''2024-02'') (combinedMonthlyData ?us ?ts)) = 1"
    by (rule bspec [rotated])
  from t have "\<forall>m. m \<notin> set (map mu_month ?us) \<longrightarrow>
        m \<notin> set (map md_month (combinedMonthlyData ?us ?ts))"
    by (elim conjE)
  with n have absent: "''2024-03'' \<notin> set (map md_month (combinedMonthlyData ?us ?ts))"
    by blast
  have val: "combinedMonthlyData ?us ?ts
      = [\<lparr>md_month = ''2024-01'', md_name = ''Jan'', md_usuarios = 3, md_tests = 0\<rparr>,
         \<lparr>md_month = ''2024-02'', md_name = ''Feb'', md_usuarios = 5, md_tests = 7\<rparr>]"
    by (simp add: combinedMonthlyData_def)
  show ?thesis by (intro conjI h val once absent)
qed

subsection \<open>Weekday translation\<close>

lemma traducir_dia_table:
  "traducir_dia ''Mon'' = DiaString ''Lun''"
  "traducir_dia ''Tue'' = DiaString ''Mar''"
  "traducir_dia ''Wed'' = DiaString (''Mi'' @ [CHR 0xE9])"
  "traducir_dia ''Thu'' = DiaString ''Jue''"
  "traducir_dia ''Fri'' = DiaString ''Vie''"
  "traducir_dia ''Sat'' = DiaString (''S'' @ [CHR 0xE1] @ ''b'')"
  "traducir_dia ''Sun'' = DiaString ''Dom''"
  by (simp_all add: traducir_dia_def diasTraducidos_def)

lemma traducir_dia_other:
  assumes "d \<notin> set [''Mon'', ''Tue'', ''Wed'', ''Thu'', ''Fri'', ''Sat'', ''Sun'']"
    and "d \<notin> set Object_prototype_keys"
  shows "traducir_dia d = DiaString d"
proof -
  from assms(1) have "map_of diasTraducidos d = None"
    by (auto simp: diasTraducidos_def)
  with assms(2) show ?thesis
    by (simp add: traducir_dia_def)
qed

text \<open>Every property name inherited from \<open>Object.prototype\<close> has at least seven characters.\<close>

lemma short_label_not_inherited:
  assumes "length d \<le> 6"
  shows "d \<notin> set Object_prototype_keys"
  using assms by (auto simp: Object_prototype_keys_def)

lemma traducir_dia_short:
  assumes "d \<notin> set [''Mon'', ''Tue'', ''Wed'', ''Thu'', ''Fri'', ''Sat'', ''Sun'']"
    and "length d \<le> 6"
  shows "traducir_dia d = DiaString d"
  using assms(1) short_label_not_inherited [OF assms(2)] by (rule traducir_dia_other)

text \<open>
  The lookup in the object literal also finds inherited properties: a label such as
  \<open>constructor\<close>, which no \<open>DATE_FORMAT(..., '%a')\<close> returns, would not pass through.
\<close>

lemma inherited_label_is_not_a_string:
  "messageActivityTranslated
      [\<lparr>ma_dia = ''constructor'', ma_mensajes = 4, ma_chatbots = Some 2\<rparr>]
     = [\<lparr>dia = DiaInherited ''constructor'', mensajes = 4, chatbots = Some 2\<rparr>]"
  by (simp add: messageActivityTranslated_def traducir_dia_def diasTraducidos_def
      Object_prototype_keys_def)

lemma DATE_FORMAT_a_names: "DATE_FORMAT_a d \<in> set abbreviated_day_names"
proof -
  obtain y m dd t where d: "d = (y, m, dd, t)" by (cases d) auto
  have "nat ((day_number y m dd + 1) mod 7) < length abbreviated_day_names"
    by (simp add: abbreviated_day_names_def)
  then have "abbreviated_day_names ! nat ((day_number y m dd + 1) mod 7)
      \<in> set abbreviated_day_names"
    by (rule nth_mem)
  then show ?thesis by (simp only: d DATE_FORMAT_a.simps)
qed

lemma in_set_map_filter:
  "y \<in> set (List.map_filter f xs) \<longleftrightarrow> (\<exists>x\<in>set xs. f x = Some y)"
  by (induction xs) (auto simp: List.map_filter_simps split: option.splits)

lemma sql_messageActivity_labels:
  assumes "r \<in> set (sql_messageActivity now chat_messages)"
  shows "ma_dia r \<in> set [''Mon'', ''Tue'', ''Wed'', ''Thu'', ''Fri'', ''Sat'', ''Sun'']"
proof -
  let ?recent = "List.map_filter
            (\<lambda>msg. case cm_created_at msg of
                     None \<Rightarrow> None
                   | Some created_at \<Rightarrow>
                       if within_last_days 7 now created_at
                       then Some (DATE_FORMAT_a created_at, cm_is_bot msg) else None)
            chat_messages"
  from assms have "ma_dia r \<in> set (map fst ?recent)"
    by (auto simp: sql_messageActivity_def Let_def intro: rev_image_eqI)
  then obtain p where p: "p \<in> set ?recent" and f: "ma_dia r = fst p" by auto
  from p [unfolded in_set_map_filter] obtain msg :: chat_messages_row where
    fx: "(case cm_created_at msg of
            None \<Rightarrow> None
          | Some created_at \<Rightarrow>
              if within_last_days 7 now created_at
              then Some (DATE_FORMAT_a created_at, cm_is_bot msg) else None) = Some p"
    by blast
  have "\<exists>created_at. fst p = DATE_FORMAT_a created_at"
  proof (cases "cm_created_at msg")
    case None
    with fx show ?thesis by simp
  next
    case (Some created_at)
    with fx have "fst p = DATE_FORMAT_a created_at"
      by (cases "within_last_days 7 now created_at") (simp_all del: DATE_FORMAT_a.simps within_last_days.simps, force)
    then show ?thesis by (rule exI)
  qed
  then obtain created_at where "fst p = DATE_FORMAT_a created_at" by (rule exE)
  with f have "ma_dia r \<in> set abbreviated_day_names"
    by (simp only: DATE_FORMAT_a_names)
  then show ?thesis by (simp add: abbreviated_day_names_def)
qed

text \<open>
  Claim C9. The translation keeps the number and the order of the rows and the fields
  \<open>mensajes\<close> and \<open>chatbots\<close> of every row. The day label is translated by the fixed
  mapping Mon to Lun, Tue to Mar, Wed to Mi+U00E9, Thu to Jue, Fri to Vie, Sat to
  S+U00E1+b, Sun to Dom, and a label outside the mapping passes through unchanged; this
  holds for every label of at most six characters, and the labels of the rows the query
  returns are the seven three-letter names, each of which the mapping translates.
\<close>

theorem weekday_translation_table:
  "length (messageActivityTranslated rows) = length rows
   \<and> (\<forall>i<length rows.
        mensajes (messageActivityTranslated rows ! i) = ma_mensajes (rows ! i)
      \<and> chatbots (messageActivityTranslated rows ! i) = ma_chatbots (rows ! i)
      \<and> (ma_dia (rows ! i) = ''Mon'' \<longrightarrow>
           dia (messageActivityTranslated rows ! i) = DiaString ''Lun'')
      \<and> (ma_dia (rows ! i) = ''Tue'' \<longrightarrow>
           dia (messageActivityTranslated rows ! i) = DiaString ''Mar'')
      \<and> (ma_dia (rows ! i) = ''Wed'' \<longrightarrow>
           dia (messageActivityTranslated rows ! i) = DiaString (''Mi'' @ [CHR 0xE9]))
      \<and> (ma_dia (rows ! i) = ''Thu'' \<longrightarrow>
           dia (messageActivityTranslated rows ! i) = DiaString ''Jue'')
      \<and> (ma_dia (rows ! i) = ''Fri'' \<longrightarrow>
           dia (messageActivityTranslated rows ! i) = DiaString ''Vie'')
      \<and> (ma_dia (rows ! i) = ''Sat'' \<longrightarrow>
           dia (messageActivityTranslated rows ! i) = DiaString (''S'' @ [CHR 0xE1] @ ''b''))
      \<and> (ma_dia (rows ! i) = ''Sun'' \<longrightarrow>
           dia (messageActivityTranslated rows ! i) = DiaString ''Dom'')
      \<and> (ma_dia (rows ! i) \<notin> set [''Mon'', ''Tue'', ''Wed'', ''Thu'', ''Fri'', ''Sat'', ''Sun'']
           \<and> length (ma_dia (rows ! i)) \<le> 6 \<longrightarrow>
           dia (messageActivityTranslated rows ! i) = DiaString (ma_dia (rows ! i))))
   \<and> (\<forall>r\<in>set (sql_messageActivity now chat_messages).
        ma_dia r \<in> set [''Mon'', ''Tue'', ''Wed'', ''Thu'', ''Fri'', ''Sat'', ''Sun'']
      \<and> (\<exists>t. map_of diasTraducidos (ma_dia r) = Some t \<and> traducir_dia (ma_dia r) = DiaString t))"
proof -
  have len: "length (messageActivityTranslated rows) = length rows"
    by (simp add: messageActivityTranslated_def)
  have row: "\<And>i. i < length rows \<Longrightarrow>
      messageActivityTranslated rows ! i
        = \<lparr>dia = traducir_dia (ma_dia (rows ! i)), mensajes = ma_mensajes (rows ! i),
           chatbots = ma_chatbots (rows ! i)\<rparr>"
    by (simp add: messageActivityTranslated_def)
  have rows: "\<forall>i<length rows.
        mensajes (messageActivityTranslated rows ! i) = ma_mensajes (rows ! i)
      \<and> chatbots (messageActivityTranslated rows ! i) = ma_chatbots (rows ! i)
      \<and> (ma_dia (rows ! i) = ''Mon'' \<longrightarrow>
           dia (messageActivityTranslated rows ! i) = DiaString ''Lun'')
      \<and> (ma_dia (rows ! i) = ''Tue'' \<longrightarrow>
           dia (messageActivityTranslated rows ! i) = DiaString ''Mar'')
      \<and> (ma_dia (rows ! i) = ''Wed'' \<longrightarrow>
           dia (messageActivityTranslated rows ! i) = DiaString (''Mi'' @ [CHR 0xE9]))
      \<and> (ma_dia (rows ! i) = ''Thu'' \<longrightarrow>
           dia (messageActivityTranslated rows ! i) = DiaString ''Jue'')
      \<and> (ma_dia (rows ! i) = ''Fri'' \<longrightarrow>
           dia (messageActivityTranslated rows ! i) = DiaString ''Vie'')
      \<and> (ma_dia (rows ! i) = ''Sat'' \<longrightarrow>
           dia (messageActivityTranslated rows ! i) = DiaString (''S'' @ [CHR 0xE1] @ ''b''))
      \<and> (ma_dia (rows ! i) = ''Sun'' \<longrightarrow>
           dia (messageActivityTranslated rows ! i) = DiaString ''Dom'')
      \<and> (ma_dia (rows ! i) \<notin> set [''Mon'', ''Tue'', ''Wed'', ''Thu'', ''Fri'', ''Sat'', ''Sun'']
           \<and> length (ma_dia (rows ! i)) \<le> 6 \<longrightarrow>
           dia (messageActivityTranslated rows ! i) = DiaString (ma_dia (rows ! i)))"
    using row traducir_dia_table traducir_dia_short by auto
  have query: "\<forall>r\<in>set (sql_messageActivity now chat_messages).
        ma_dia r \<in> set [''Mon'', ''Tue'', ''Wed'', ''Thu'', ''Fri'', ''Sat'', ''Sun'']
      \<and> (\<exists>t. map_of diasTraducidos (ma_dia r) = Some t \<and> traducir_dia (ma_dia r) = DiaString t)"
  proof
    fix r assume "r \<in> set (sql_messageActivity now chat_messages)"
    then have l: "ma_dia r \<in> set [''Mon'', ''Tue'', ''Wed'', ''Thu'', ''Fri'', ''Sat'', ''Sun'']"
      by (rule sql_messageActivity_labels)
    then have "\<exists>t. map_of diasTraducidos (ma_dia r) = Some t \<and> traducir_dia (ma_dia r) = DiaString t"
      by (auto simp: traducir_dia_def diasTraducidos_def)
    with l show "ma_dia r \<in> set [''Mon'', ''Tue'', ''Wed'', ''Thu'', ''Fri'', ''Sat'', ''Sun'']
      \<and> (\<exists>t. map_of diasTraducidos (ma_dia r) = Some t \<and> traducir_dia (ma_dia r) = DiaString t)"
      by (rule conjI)
  qed
  from len rows query show ?thesis by (intro conjI)
qed

theorem weekday_translation_table_witness:
  "sql_messageActivity (2024, 3, 15, 10, 0, 0)
      [\<lparr>cm_created_at = Some (2024, 3, 13, 9, 0, 0), cm_is_bot = Some 1\<rparr>,
       \<lparr>cm_created_at = Some (2024, 3, 13, 9, 5, 0), cm_is_bot = Some 0\<rparr>]
     = [\<lparr>ma_dia = ''Wed'', ma_mensajes = 2, ma_chatbots = Some 1\<rparr>]
   \<and> messageActivityTranslated
      [\<lparr>ma_dia = ''Wed'', ma_mensajes = 2, ma_chatbots = Some 1\<rparr>,
       \<lparr>ma_dia = ''lun'', ma_mensajes = 3, ma_chatbots = None\<rparr>]
     = [\<lparr>dia = DiaString (''Mi'' @ [CHR 0xE9]), mensajes = 2, chatbots = Some 1\<rparr>,
        \<lparr>dia = DiaString ''lun'', mensajes = 3, chatbots = None\<rparr>]"
proof -
  let ?now = "(2024, 3, 15, 10, 0, 0) :: datetime"
  let ?msgs = "[\<lparr>cm_created_at = Some (2024, 3, 13, 9, 0, 0), cm_is_bot = Some 1\<rparr>,
       \<lparr>cm_created_at = Some (2024, 3, 13, 9, 5, 0), cm_is_bot = Some 0\<rparr>]"
  let ?rows = "[\<lparr>ma_dia = ''Wed'', ma_mensajes = 2, ma_chatbots = Some 1\<rparr>,
                \<lparr>ma_dia = ''lun'', ma_mensajes = 3, ma_chatbots = None\<rparr>]"
  have q: "sql_messageActivity ?now ?msgs
      = [\<lparr>ma_dia = ''Wed'', ma_mensajes = 2, ma_chatbots = Some 1\<rparr>]"
    by code_simp
  have short: "ma_dia (?rows ! 1)
        \<notin> set [''Mon'', ''Tue'', ''Wed'', ''Thu'', ''Fri'', ''Sat'', ''Sun'']
      \<and> length (ma_dia (?rows ! 1)) \<le> 6"
    by simp
  have wed: "ma_dia (?rows ! 0) = ''Wed''" by simp
  note t = weekday_translation_table [of ?rows ?now ?msgs]
  from t have len: "length (messageActivityTranslated ?rows) = 2" by simp
  from t wed have r0: "dia (messageActivityTranslated ?rows ! 0) = DiaString (''Mi'' @ [CHR 0xE9])
      \<and> mensajes (messageActivityTranslated ?rows ! 0) = 2
      \<and> chatbots (messageActivityTranslated ?rows ! 0) = Some 1"
    by simp
  from t short have r1: "dia (messageActivityTranslated ?rows ! 1) = DiaString ''lun''
      \<and> mensajes (messageActivityTranslated ?rows ! 1) = 3
      \<and> chatbots (messageActivityTranslated ?rows ! 1) = None"
    by simp
  from len r0 r1 have tr: "messageActivityTranslated ?rows
     = [\<lparr>dia = DiaString (''Mi'' @ [CHR 0xE9]), mensajes = 2, chatbots = Some 1\<rparr>,
        \<lparr>dia = DiaString ''lun'', mensajes = 3, chatbots = None\<rparr>]"
    by (simp add: messageActivityTranslated_def traducir_dia_def diasTraducidos_def
        Object_prototype_keys_def)
  from q tr show ?thesis by (rule conjI)
qed

subsection \<open>\<open>collectRawData\<close>: success and failure\<close>

lemma collectRawData_Inr_D:
  assumes "collectRawData q = Inr raw"
  shows "\<exists>x1 x2 x3 x4 x5 x6 x7 x8 x9 x10 x11 x12 x13 x14 x15 x16 x17.
    q_userCount q = Inr x1 \<and> q_newUsersThisMonth q = Inr x2 \<and> q_testCount q = Inr x3
    \<and> q_messageCount q = Inr x4 \<and> q_anxietyLevels q = Inr x5 \<and> q_depressionLevels q = Inr x6
    \<and> q_ageDistribution q = Inr x7 \<and> q_genderDistribution q = Inr x8 \<and> q_monthlyUsers q = Inr x9
    \<and> q_monthlyTests q = Inr x10 \<and> q_messageActivity q = Inr x11 \<and> q_correlationData q = Inr x12
    \<and> q_efectividad q = Inr x13 \<and> q_retencion q = Inr x14 \<and> q_patronesUso q = Inr x15
    \<and> q_respuestasExtra q = Inr x16 \<and> q_chatAnalytics q = Inr x17
    \<and> raw = \<lparr>userStats =
              \<lparr>us_total = first_total_or_0 x1,
               nuevos_este_mes = first_total_or_0 x2,
               tests_totales = first_total_or_0 x3,
               mensajes_totales = first_total_or_0 x4\<rparr>,
            anxietyLevels = x5,
            depressionLevels = x6,
            ageDistribution = x7,
            genderDistribution = x8,
            monthlyActivity = combinedMonthlyData x9 x10,
            messageActivity = messageActivityTranslated x11,
            correlationData = x12,
            efectividad = first_efectividad x13,
            retencion = first_retencion x14,
            patronesUso = x15,
            respuestasExtra = x16,
            chatAnalytics = x17\<rparr>"
  using assms unfolding collectRawData_def
  apply (cases "q_userCount q"; simp add: await_def)
  apply (cases "q_newUsersThisMonth q"; simp add: await_def)
  apply (cases "q_testCount q"; simp add: await_def)
  apply (cases "q_messageCount q"; simp add: await_def)
  apply (cases "q_anxietyLevels q"; simp add: await_def)
  apply (cases "q_depressionLevels q"; simp add: await_def)
  apply (cases "q_ageDistribution q"; simp add: await_def)
  apply (cases "q_genderDistribution q"; simp add: await_def)
  apply (cases "q_monthlyUsers q"; simp add: await_def)
  apply (cases "q_monthlyTests q"; simp add: await_def)
  apply (cases "q_messageActivity q"; simp add: await_def)
  apply (cases "q_correlationData q"; simp add: await_def)
  apply (cases "q_efectividad q"; simp add: await_def)
  apply (cases "q_retencion q"; simp add: await_def)
  apply (cases "q_patronesUso q"; simp add: await_def)
  apply (cases "q_respuestasExtra q"; simp add: await_def)
  apply (cases "q_chatAnalytics q"; simp add: await_def)
  done

lemma collectRawData_first_failure:
  "collectRawData q =
     (case query_failures q of
        [] \<Rightarrow> collectRawData q
      | thrown # _ \<Rightarrow> Inl thrown)"
  unfolding collectRawData_def query_failures_def
  apply (cases "q_userCount q"; simp add: await_def failure_def)
  apply (cases "q_newUsersThisMonth q"; simp add: await_def failure_def)
  apply (cases "q_testCount q"; simp add: await_def failure_def)
  apply (cases "q_messageCount q"; simp add: await_def failure_def)
  apply (cases "q_anxietyLevels q"; simp add: await_def failure_def)
  apply (cases "q_depressionLevels q"; simp add: await_def failure_def)
  apply (cases "q_ageDistribution q"; simp add: await_def failure_def)
  apply (cases "q_genderDistribution q"; simp add: await_def failure_def)
  apply (cases "q_monthlyUsers q"; simp add: await_def failure_def)
  apply (cases "q_monthlyTests q"; simp add: await_def failure_def)
  apply (cases "q_messageActivity q"; simp add: await_def failure_def)
  apply (cases "q_correlationData q"; simp add: await_def failure_def)
  apply (cases "q_efectividad q"; simp add: await_def failure_def)
  apply (cases "q_retencion q"; simp add: await_def failure_def)
  apply (cases "q_patronesUso q"; simp add: await_def failure_def)
  apply (cases "q_respuestasExtra q"; simp add: await_def failure_def)
  apply (cases "q_chatAnalytics q"; simp add: await_def failure_def)
  done

lemma collectRawData_no_failure:
  assumes "query_failures q = []"
  shows "\<exists>rawData. collectRawData q = Inr rawData"
  using assms unfolding collectRawData_def query_failures_def
  apply (cases "q_userCount q"; simp add: await_def failure_def)
  apply (cases "q_newUsersThisMonth q"; simp add: await_def failure_def)
  apply (cases "q_testCount q"; simp add: await_def failure_def)
  apply (cases "q_messageCount q"; simp add: await_def failure_def)
  apply (cases "q_anxietyLevels q"; simp add: await_def failure_def)
  apply (cases "q_depressionLevels q"; simp add: await_def failure_def)
  apply (cases "q_ageDistribution q"; simp add: await_def failure_def)
  apply (cases "q_genderDistribution q"; simp add: await_def failure_def)
  apply (cases "q_monthlyUsers q"; simp add: await_def failure_def)
  apply (cases "q_monthlyTests q"; simp add: await_def failure_def)
  apply (cases "q_messageActivity q"; simp add: await_def failure_def)
  apply (cases "q_correlationData q"; simp add: await_def failure_def)
  apply (cases "q_efectividad q"; simp add: await_def failure_def)
  apply (cases "q_retencion q"; simp add: await_def failure_def)
  apply (cases "q_patronesUso q"; simp add: await_def failure_def)
  apply (cases "q_respuestasExtra q"; simp add: await_def failure_def)
  apply (cases "q_chatAnalytics q"; simp add: await_def failure_def)
  done


text \<open>
  Claim C8. When the connection fails for one of the queries, \<open>collectRawData\<close> throws the
  value of the first failing query, no snapshot is built, and the endpoint answers with
  status 500 and the body \<open>{success: false, error: message}\<close>, the message being that of
  the thrown error; when no query fails it answers with status 200 and the body
  \<open>{success: true, stats: payload}\<close>. \<open>stats\<close> is present exactly when \<open>success\<close> is true,
  \<open>error\<close> exactly when it is false.
\<close>

theorem GET_response_contract:
  "(any_query_fails q \<longrightarrow>
      collectRawData q = Inl (hd (query_failures q))
      \<and> GET q backend = \<lparr>status = 500, success = False, stats = None,
                          error = Some (errorMessage (hd (query_failures q)))\<rparr>)
   \<and> (\<not> any_query_fails q \<longrightarrow>
        (\<exists>rawData. collectRawData q = Inr rawData
           \<and> GET q backend = \<lparr>status = 200, success = True,
                 stats = Some (analyzeDataWithGeminiAgents backend rawData), error = None\<rparr>))
   \<and> (stats (GET q backend) \<noteq> None \<longleftrightarrow> success (GET q backend))
   \<and> (error (GET q backend) \<noteq> None \<longleftrightarrow> \<not> success (GET q backend))"
proof (cases "any_query_fails q")
  case True
  then obtain thrown rest where "query_failures q = thrown # rest"
    by (auto simp: any_query_fails_def neq_Nil_conv)
  then have "collectRawData q = Inl (hd (query_failures q))"
    using collectRawData_first_failure [of q] by simp
  with True show ?thesis by (simp add: GET_def)
next
  case False
  then have "query_failures q = []" by (simp add: any_query_fails_def)
  then obtain rawData where "collectRawData q = Inr rawData"
    using collectRawData_no_failure by blast
  with False show ?thesis by (simp add: GET_def)
qed

theorem GET_response_contract_witness:
  "\<not> any_query_fails (empty_store_results (2024, 3, 15, 10, 0, 0))
   \<and> status (GET (empty_store_results (2024, 3, 15, 10, 0, 0)) malformed_recommendations_backend) = 200
   \<and> success (GET (empty_store_results (2024, 3, 15, 10, 0, 0)) malformed_recommendations_backend)
   \<and> any_query_fails
        ((empty_store_results (2024, 3, 15, 10, 0, 0))
           \<lparr>q_testCount := Inl (JsError ''connect ECONNREFUSED'')\<rparr>)
   \<and> GET ((empty_store_results (2024, 3, 15, 10, 0, 0))
             \<lparr>q_testCount := Inl (JsError ''connect ECONNREFUSED'')\<rparr>)
          malformed_recommendations_backend
        = \<lparr>status = 500, success = False, stats = None,
           error = Some ''connect ECONNREFUSED''\<rparr>"
proof -
  let ?ok = "empty_store_results (2024, 3, 15, 10, 0, 0)"
  let ?bad = "?ok\<lparr>q_testCount := Inl (JsError ''connect ECONNREFUSED'')\<rparr>"
  have f_ok: "query_failures ?ok = []"
    by (simp add: query_failures_def failure_def empty_store_results_def store_results_def)
  have f_bad: "query_failures ?bad = [JsError ''connect ECONNREFUSED'']"
    by (simp add: query_failures_def failure_def empty_store_results_def store_results_def)
  from f_ok have n_ok: "\<not> any_query_fails ?ok" by (simp add: any_query_fails_def)
  from f_bad have a_bad: "any_query_fails ?bad" by (simp add: any_query_fails_def)
  from n_ok GET_response_contract [of ?ok malformed_recommendations_backend]
  have r_ok: "status (GET ?ok malformed_recommendations_backend) = 200
      \<and> success (GET ?ok malformed_recommendations_backend)"
    by auto
  from a_bad f_bad GET_response_contract [of ?bad malformed_recommendations_backend]
  have r_bad: "GET ?bad malformed_recommendations_backend
        = \<lparr>status = 500, success = False, stats = None, error = Some ''connect ECONNREFUSED''\<rparr>"
    by simp
  from n_ok r_ok a_bad r_bad show ?thesis by blast
qed


subsection \<open>The modelled queries in the assembled snapshot\<close>

lemma collectRawData_Inr_fields:
  assumes "collectRawData q = Inr raw"
  shows "q_newUsersThisMonth q = Inr rows \<Longrightarrow> nuevos_este_mes (userStats raw) = first_total_or_0 rows"
    and "q_ageDistribution q = Inr (ageDistribution raw)"
    and "q_genderDistribution q = Inr (genderDistribution raw)"
    and "q_efectividad q = Inr erows \<Longrightarrow> efectividad raw = first_efectividad erows"
    and "q_retencion q = Inr rrows \<Longrightarrow> retencion raw = first_retencion rrows"
proof -
  from collectRawData_Inr_D [OF assms]
  obtain x1 x2 x3 x4 x5 x6 x7 x8 x9 x10 x11 x12 x13 x14 x15 x16 x17 where
    q2: "q_newUsersThisMonth q = Inr x2" and q7: "q_ageDistribution q = Inr x7"
    and q8: "q_genderDistribution q = Inr x8" and q13: "q_efectividad q = Inr x13"
    and q14: "q_retencion q = Inr x14"
    and raw: "raw = \<lparr>userStats =
              \<lparr>us_total = first_total_or_0 x1,
               nuevos_este_mes = first_total_or_0 x2,
               tests_totales = first_total_or_0 x3,
               mensajes_totales = first_total_or_0 x4\<rparr>,
            anxietyLevels = x5,
            depressionLevels = x6,
            ageDistribution = x7,
            genderDistribution = x8,
            monthlyActivity = combinedMonthlyData x9 x10,
            messageActivity = messageActivityTranslated x11,
            correlationData = x12,
            efectividad = first_efectividad x13,
            retencion = first_retencion x14,
            patronesUso = x15,
            respuestasExtra = x16,
            chatAnalytics = x17\<rparr>"
    by blast
  from raw have r2: "nuevos_este_mes (userStats raw) = first_total_or_0 x2" by simp
  from raw have r7: "ageDistribution raw = x7" by simp
  from raw have r8: "genderDistribution raw = x8" by simp
  from raw have r13: "efectividad raw = first_efectividad x13" by simp
  from raw have r14: "retencion raw = first_retencion x14" by simp
  show "q_newUsersThisMonth q = Inr rows \<Longrightarrow> nuevos_este_mes (userStats raw) = first_total_or_0 rows"
    using q2 r2 by simp
  show "q_ageDistribution q = Inr (ageDistribution raw)" using q7 r7 by simp
  show "q_genderDistribution q = Inr (genderDistribution raw)" using q8 r8 by simp
  show "q_efectividad q = Inr erows \<Longrightarrow> efectividad raw = first_efectividad erows"
    using q13 r13 by simp
  show "q_retencion q = Inr rrows \<Longrightarrow> retencion raw = first_retencion rrows"
    using q14 r14 by simp
qed

lemma store_results_queries:
  "q_newUsersThisMonth (store_results now users chats tests other) = Inr (sql_newUsersThisMonth now users)"
  "q_ageDistribution (store_results now users chats tests other) = Inr (sql_ageDistribution users)"
  "q_genderDistribution (store_results now users chats tests other) = Inr (sql_genderDistribution users)"
  "q_efectividad (store_results now users chats tests other) = Inr (sql_efectividad tests)"
  "q_retencion (store_results now users chats tests other) = Inr (sql_retencion now users chats tests)"
  by (simp_all add: store_results_def)

lemma store_snapshot_fields:
  assumes "collectRawData (store_results now users chats tests other) = Inr raw"
  shows "ageDistribution raw = sql_ageDistribution users"
    and "genderDistribution raw = sql_genderDistribution users"
    and "efectividad raw = first_efectividad (sql_efectividad tests)"
    and "retencion raw = first_retencion (sql_retencion now users chats tests)"
    and "nuevos_este_mes (userStats raw) = first_total_or_0 (sql_newUsersThisMonth now users)"
proof -
  show "ageDistribution raw = sql_ageDistribution users"
    using collectRawData_Inr_fields(2) [OF assms] by (simp only: store_results_queries sum.inject)
  show "genderDistribution raw = sql_genderDistribution users"
    using collectRawData_Inr_fields(3) [OF assms] by (simp only: store_results_queries sum.inject)
  show "efectividad raw = first_efectividad (sql_efectividad tests)"
    by (rule collectRawData_Inr_fields(4) [OF assms]) (rule store_results_queries)
  show "retencion raw = first_retencion (sql_retencion now users chats tests)"
    by (rule collectRawData_Inr_fields(5) [OF assms]) (rule store_results_queries)
  show "nuevos_este_mes (userStats raw) = first_total_or_0 (sql_newUsersThisMonth now users)"
    by (rule collectRawData_Inr_fields(1) [OF assms]) (rule store_results_queries)
qed

lemma set_group_count: "fst ` set (group_count ks) = set ks"
  by (auto simp: group_count_def image_iff)

lemma count_list_map_filter:
  "count_list (map f xs) k = length (filter (\<lambda>x. f x = k) xs)"
  by (induction xs) auto

subsection \<open>Age distribution\<close>

lemma age_case_labels:
  "age_case a \<in> set [''Menor de 18'', ''18-24'', ''25-34'', ''35-44'', ''45-54'', ''55+'']"
  by (simp add: age_case_def)

lemma sql_ageDistribution_names:
  assumes "e \<in> set (sql_ageDistribution users)"
  shows "\<exists>a. ad_name e = age_case a"
proof -
  from assms obtain n c where
    nc: "(n, c) \<in> set (group_count (map age_case (List.map_filter u_age users)))"
    and e: "e = \<lparr>ad_name = n, ad_count = c\<rparr>"
    by (auto simp: sql_ageDistribution_def)
  from nc have "n \<in> fst ` set (group_count (map age_case (List.map_filter u_age users)))"
    by force
  then have "n \<in> set (map age_case (List.map_filter u_age users))"
    by (simp only: set_group_count)
  with e show ?thesis by auto
qed

text \<open>
  Claim C10. Whatever the store holds, every entry of the age distribution of the
  assembled snapshot has one of the six names Menor de 18, 18-24, 25-34, 35-44, 45-54,
  55+: rows with a \<open>NULL\<close> age are filtered out before the \<open>CASE\<close>, and every integer
  age falls in one of its first six branches, so no entry is named No especificado.
\<close>

theorem age_distribution_never_unspecified:
  assumes "collectRawData (store_results now users chats tests other) = Inr raw"
  shows "(\<forall>e\<in>set (ageDistribution raw).
            ad_name e \<in> set [''Menor de 18'', ''18-24'', ''25-34'', ''35-44'', ''45-54'', ''55+''])
       \<and> ''No especificado'' \<notin> set (map ad_name (ageDistribution raw))"
proof -
  have eq: "ageDistribution raw = sql_ageDistribution users"
    using assms by (rule store_snapshot_fields)
  have names: "\<forall>e\<in>set (ageDistribution raw).
            ad_name e \<in> set [''Menor de 18'', ''18-24'', ''25-34'', ''35-44'', ''45-54'', ''55+'']"
  proof
    fix e assume "e \<in> set (ageDistribution raw)"
    with eq obtain a where "ad_name e = age_case a"
      using sql_ageDistribution_names by metis
    then show "ad_name e \<in> set [''Menor de 18'', ''18-24'', ''25-34'', ''35-44'', ''45-54'', ''55+'']"
      using age_case_labels [of a] by simp
  qed
  have unspecified: "''No especificado'' \<notin> set [''Menor de 18'', ''18-24'', ''25-34'', ''35-44'', ''45-54'', ''55+'']"
    by simp
  have "''No especificado'' \<notin> set (map ad_name (ageDistribution raw))"
  proof
    assume "''No especificado'' \<in> set (map ad_name (ageDistribution raw))"
    then obtain e where "e \<in> set (ageDistribution raw)" and "ad_name e = ''No especificado''"
      by auto
    with names have "''No especificado''
        \<in> set [''Menor de 18'', ''18-24'', ''25-34'', ''35-44'', ''45-54'', ''55+'']"
      by metis
    with unspecified show False by simp
  qed
  with names show ?thesis by blast
qed

theorem age_distribution_never_unspecified_witness:
  "\<exists>raw. collectRawData
      (store_results (2024, 3, 15, 10, 0, 0)
         [\<lparr>u_id = 1, u_age = Some 17, u_gender = None, u_created_at = None, u_updated_at = None\<rparr>,
          \<lparr>u_id = 2, u_age = None, u_gender = None, u_created_at = None, u_updated_at = None\<rparr>,
          \<lparr>u_id = 3, u_age = Some 70, u_gender = None, u_created_at = None, u_updated_at = None\<rparr>]
         [] [] (empty_store_results (2024, 3, 15, 10, 0, 0))) = Inr raw
   \<and> map ad_name (ageDistribution raw) = [''Menor de 18'', ''55+'']
   \<and> ''No especificado'' \<notin> set (map ad_name (ageDistribution raw))"
proof -
  let ?users = "[\<lparr>u_id = 1, u_age = Some 17, u_gender = None, u_created_at = None, u_updated_at = None\<rparr>,
          \<lparr>u_id = 2, u_age = None, u_gender = None, u_created_at = None, u_updated_at = None\<rparr>,
          \<lparr>u_id = 3, u_age = Some 70, u_gender = None, u_created_at = None, u_updated_at = None\<rparr>]"
  let ?q = "store_results (2024, 3, 15, 10, 0, 0) ?users [] []
              (empty_store_results (2024, 3, 15, 10, 0, 0))"
  have "query_failures ?q = []"
    by (simp add: query_failures_def failure_def empty_store_results_def store_results_def)
  then obtain raw where raw: "collectRawData ?q = Inr raw"
    using collectRawData_no_failure by blast
  from age_distribution_never_unspecified [OF raw]
  have no: "''No especificado'' \<notin> set (map ad_name (ageDistribution raw))" by blast
  have "ageDistribution raw = sql_ageDistribution ?users"
    using raw by (rule store_snapshot_fields)
  moreover have "map ad_name (sql_ageDistribution ?users) = [''Menor de 18'', ''55+'']"
    by code_simp
  ultimately have val: "map ad_name (ageDistribution raw) = [''Menor de 18'', ''55+'']" by simp
  show ?thesis
    by (rule exI [of _ raw]) (intro conjI raw val no)
qed

subsection \<open>Gender distribution\<close>

lemma sql_genderDistribution_set:
  "set (sql_genderDistribution users)
     = (\<lambda>g. \<lparr>dp_name = IFNULL g ''No especificado'',
              dp_value = int (length (filter (\<lambda>u. u_gender u = g) users))\<rparr>)
       ` (u_gender ` set users)"
  by (simp add: sql_genderDistribution_def group_count_def count_list_map_filter image_image)

lemma sql_genderDistribution_length:
  "length (sql_genderDistribution users) = card (u_gender ` set users)"
  by (simp add: sql_genderDistribution_def group_count_def length_remdups_card_conv)

lemma gender_group_present:
  assumes "u \<in> set users"
  shows "\<lparr>dp_name = IFNULL (u_gender u) ''No especificado'',
          dp_value = int (length (filter (\<lambda>u'. u_gender u' = u_gender u) users))\<rparr>
           \<in> set (sql_genderDistribution users)"
proof -
  from assms have "u_gender u \<in> u_gender ` set users" by (rule imageI)
  then show ?thesis
    unfolding sql_genderDistribution_set by (rule imageI)
qed

lemma gender_group_only:
  assumes "e \<in> set (sql_genderDistribution users)"
  shows "\<exists>u\<in>set users.
           e = \<lparr>dp_name = IFNULL (u_gender u) ''No especificado'',
                dp_value = int (length (filter (\<lambda>u'. u_gender u' = u_gender u) users))\<rparr>"
proof -
  from assms obtain g where g: "g \<in> u_gender ` set users"
    and e: "e = \<lparr>dp_name = IFNULL g ''No especificado'',
                 dp_value = int (length (filter (\<lambda>u. u_gender u = g) users))\<rparr>"
    unfolding sql_genderDistribution_set by (rule imageE)
  from g obtain u where "u \<in> set users" and "g = u_gender u" by (rule imageE)
  with e show ?thesis by blast
qed

text \<open>
  Claim C5 (as stated) fails: a user row whose gender is the empty string is counted
  under the empty name, not under No especificado.
\<close>

theorem gender_empty_string_not_unspecified:
  "sql_genderDistribution
      [\<lparr>u_id = 1, u_age = None, u_gender = Some [], u_created_at = None, u_updated_at = None\<rparr>]
     = [\<lparr>dp_name = [], dp_value = 1\<rparr>]
   \<and> ''No especificado'' \<notin> set (map dp_name (sql_genderDistribution
      [\<lparr>u_id = 1, u_age = None, u_gender = Some [], u_created_at = None, u_updated_at = None\<rparr>]))"
  by (simp add: sql_genderDistribution_def group_count_def IFNULL_def)

text \<open>
  Claim C5 (amended). In the gender distribution of the assembled snapshot, the rows
  whose gender is \<open>NULL\<close> are counted under No especificado, and the rows with any other
  raw value, the empty string included, are counted under that raw value; every entry
  is the group of one raw value with the number of its rows, and there is one entry per
  distinct raw value.
\<close>

theorem gender_distribution_groups_raw_value:
  assumes "collectRawData (store_results now users chats tests other) = Inr raw"
  shows "(\<forall>u\<in>set users. u_gender u = None \<longrightarrow>
            \<lparr>dp_name = ''No especificado'',
             dp_value = int (length (filter (\<lambda>u'. u_gender u' = None) users))\<rparr>
              \<in> set (genderDistribution raw))
       \<and> (\<forall>u\<in>set users. \<forall>g. u_gender u = Some g \<longrightarrow>
            \<lparr>dp_name = g,
             dp_value = int (length (filter (\<lambda>u'. u_gender u' = Some g) users))\<rparr>
              \<in> set (genderDistribution raw))
       \<and> (\<forall>e\<in>set (genderDistribution raw). \<exists>u\<in>set users.
            e = \<lparr>dp_name = (case u_gender u of None \<Rightarrow> ''No especificado'' | Some g \<Rightarrow> g),
                 dp_value = int (length (filter (\<lambda>u'. u_gender u' = u_gender u) users))\<rparr>)
       \<and> length (genderDistribution raw) = card (u_gender ` set users)"
proof -
  have eq: "genderDistribution raw = sql_genderDistribution users"
    using assms by (rule store_snapshot_fields)
  have nulls: "\<forall>u\<in>set users. u_gender u = None \<longrightarrow>
            \<lparr>dp_name = ''No especificado'',
             dp_value = int (length (filter (\<lambda>u'. u_gender u' = None) users))\<rparr>
              \<in> set (genderDistribution raw)"
  proof (intro ballI impI)
    fix u assume "u \<in> set users" and "u_gender u = None"
    then show "\<lparr>dp_name = ''No especificado'',
             dp_value = int (length (filter (\<lambda>u'. u_gender u' = None) users))\<rparr>
              \<in> set (genderDistribution raw)"
      using gender_group_present [of u users] by (simp add: eq IFNULL_def)
  qed
  have vals: "\<forall>u\<in>set users. \<forall>g. u_gender u = Some g \<longrightarrow>
            \<lparr>dp_name = g,
             dp_value = int (length (filter (\<lambda>u'. u_gender u' = Some g) users))\<rparr>
              \<in> set (genderDistribution raw)"
  proof (intro ballI allI impI)
    fix u g assume "u \<in> set users" and "u_gender u = Some g"
    then show "\<lparr>dp_name = g,
             dp_value = int (length (filter (\<lambda>u'. u_gender u' = Some g) users))\<rparr>
              \<in> set (genderDistribution raw)"
      using gender_group_present [of u users] by (simp add: eq IFNULL_def)
  qed
  have only: "\<forall>e\<in>set (genderDistribution raw). \<exists>u\<in>set users.
            e = \<lparr>dp_name = (case u_gender u of None \<Rightarrow> ''No especificado'' | Some g \<Rightarrow> g),
                 dp_value = int (length (filter (\<lambda>u'. u_gender u' = u_gender u) users))\<rparr>"
  proof
    fix e assume "e \<in> set (genderDistribution raw)"
    then have "e \<in> set (sql_genderDistribution users)" by (simp only: eq)
    from gender_group_only [OF this]
    show "\<exists>u\<in>set users.
            e = \<lparr>dp_name = (case u_gender u of None \<Rightarrow> ''No especificado'' | Some g \<Rightarrow> g),
                 dp_value = int (length (filter (\<lambda>u'. u_gender u' = u_gender u) users))\<rparr>"
      by (simp add: IFNULL_def)
  qed
  have len: "length (genderDistribution raw) = card (u_gender ` set users)"
    by (simp only: eq sql_genderDistribution_length)
  from nulls vals only len show ?thesis by (intro conjI)
qed

theorem gender_distribution_groups_raw_value_witness:
  "\<exists>raw. collectRawData
      (store_results (2024, 3, 15, 10, 0, 0)
         [\<lparr>u_id = 1, u_age = None, u_gender = None, u_created_at = None, u_updated_at = None\<rparr>,
          \<lparr>u_id = 2, u_age = None, u_gender = Some ''F'', u_created_at = None, u_updated_at = None\<rparr>,
          \<lparr>u_id = 3, u_age = None, u_gender = None, u_created_at = None, u_updated_at = None\<rparr>]
         [] [] (empty_store_results (2024, 3, 15, 10, 0, 0))) = Inr raw
   \<and> \<lparr>dp_name = ''No especificado'', dp_value = 2\<rparr> \<in> set (genderDistribution raw)
   \<and> \<lparr>dp_name = ''F'', dp_value = 1\<rparr> \<in> set (genderDistribution raw)
   \<and> length (genderDistribution raw) = 2"
proof -
  let ?u1 = "\<lparr>u_id = 1, u_age = None, u_gender = None, u_created_at = None, u_updated_at = None\<rparr>"
  let ?u2 = "\<lparr>u_id = 2, u_age = None, u_gender = Some ''F'', u_created_at = None, u_updated_at = None\<rparr>"
  let ?u3 = "\<lparr>u_id = 3, u_age = None, u_gender = None, u_created_at = None, u_updated_at = None\<rparr>"
  let ?users = "[?u1, ?u2, ?u3]"
  let ?q = "store_results (2024, 3, 15, 10, 0, 0) ?users [] []
              (empty_store_results (2024, 3, 15, 10, 0, 0))"
  have "query_failures ?q = []"
    by (simp add: query_failures_def failure_def empty_store_results_def store_results_def)
  then obtain raw where raw: "collectRawData ?q = Inr raw"
    using collectRawData_no_failure by blast
  note t = gender_distribution_groups_raw_value [OF raw]
  have m1: "?u1 \<in> set ?users" and g1: "u_gender ?u1 = None" by simp_all
  have m2: "?u2 \<in> set ?users" and g2: "u_gender ?u2 = Some ''F''" by simp_all
  from t m1 g1 have "\<lparr>dp_name = ''No especificado'',
       dp_value = int (length (filter (\<lambda>u'. u_gender u' = None) ?users))\<rparr>
         \<in> set (genderDistribution raw)"
    by blast
  then have a: "\<lparr>dp_name = ''No especificado'', dp_value = 2\<rparr> \<in> set (genderDistribution raw)"
    by simp
  from t m2 g2 have "\<lparr>dp_name = ''F'',
       dp_value = int (length (filter (\<lambda>u'. u_gender u' = Some ''F'') ?users))\<rparr>
         \<in> set (genderDistribution raw)"
    by blast
  then have b: "\<lparr>dp_name = ''F'', dp_value = 1\<rparr> \<in> set (genderDistribution raw)"
    by simp
  from t have "length (genderDistribution raw) = card (u_gender ` set ?users)" by blast
  then have c: "length (genderDistribution raw) = 2" by (simp add: card_insert_if)
  show ?thesis
    by (rule exI [of _ raw]) (intro conjI raw a b c)
qed

subsection \<open>New users of the month\<close>

lemma sql_newUsersThisMonth_counts:
  "first_total_or_0 (sql_newUsersThisMonth now users)
     = int (length (filter
         (\<lambda>u. case u_created_at u of
                 None \<Rightarrow> False
               | Some created_at \<Rightarrow> date_format_Ym01 (sub_months 1 now) \<le> created_at)
         users))"
  by (simp add: sql_newUsersThisMonth_def first_total_or_0_def)

lemma previous_month_start:
  "date_format_Ym01 (sub_months 1 (2024, 3, 15, 10, 0, 0)) = (2024, 2, 1, 0, 0, 0)"
  by (simp add: Let_def)

text \<open>
  Claim C4, the code at the failing input. On 2024-03-15 10:00:00 the lower bound of the
  query is 2024-02-01 00:00:00, the first day of the previous month: a user created on
  2024-02-10 is counted as new this month, although no user was created between the
  first day of the current month and now.
\<close>

theorem new_this_month_counts_previous_month:
  "first_total_or_0 (sql_newUsersThisMonth (2024, 3, 15, 10, 0, 0)
      [\<lparr>u_id = 1, u_age = None, u_gender = None,
        u_created_at = Some (2024, 2, 10, 0, 0, 0), u_updated_at = None\<rparr>]) = 1
   \<and> length (filter (created_this_calendar_month (2024, 3, 15, 10, 0, 0))
      [\<lparr>u_id = 1, u_age = None, u_gender = None,
        u_created_at = Some (2024, 2, 10, 0, 0, 0), u_updated_at = None\<rparr>]) = 0"
  by (simp add: sql_newUsersThisMonth_def first_total_or_0_def Let_def)

subsection \<open>Effectiveness and retention\<close>

lemma sql_efectividad_empty_cohort:
  assumes "scores tests = []"
  shows "sql_efectividad tests
           = [\<lparr>total_usuarios = Value 0, mejoraron = Null, porcentaje_mejora = Null\<rparr>]"
  using assms
  by (simp add: sql_efectividad_def sql_SUM_def sql_div_def sql_times_def sql_ROUND1_def
      of_sql_def)

lemma sql_retencion_no_prior_month:
  assumes "usuarios_activos 2 now (user_activity users chats tests) = 0"
  shows "\<exists>r. sql_retencion now users chats tests = [r] \<and> tasa_retencion r = Null
           \<and> usuarios_activos_mes_anterior r = Value 0"
  using assms
  by (simp add: sql_retencion_def Let_def sql_div_def sql_times_def sql_ROUND1_def of_sql_def)

lemma empty_cohort_snapshot:
  assumes "collectRawData (store_results now users chats tests other) = Inr raw"
    and "scores tests = []"
  shows "efectividad raw
           = \<lparr>total_usuarios = Value 0, mejoraron = Null, porcentaje_mejora = Null\<rparr>"
proof -
  have "efectividad raw = first_efectividad (sql_efectividad tests)"
    using assms(1) by (rule store_snapshot_fields)
  with assms(2) show ?thesis
    by (simp add: sql_efectividad_empty_cohort first_efectividad_def)
qed

lemma no_prior_month_snapshot:
  assumes "collectRawData (store_results now users chats tests other) = Inr raw"
    and "usuarios_activos 2 now (user_activity users chats tests) = 0"
  shows "tasa_retencion (retencion raw) = Null"
proof -
  have "retencion raw = first_retencion (sql_retencion now users chats tests)"
    using assms(1) by (rule store_snapshot_fields)
  moreover from sql_retencion_no_prior_month [OF assms(2)]
  obtain r where "sql_retencion now users chats tests = [r]" and "tasa_retencion r = Null"
    by blast
  ultimately show ?thesis
    by (simp add: first_retencion_def)
qed

text \<open>
  Claim C3, the code at the failing input. On the empty store both queries return their
  one row: the effectiveness row has \<open>total_usuarios = 0\<close> and a \<open>NULL\<close> percentage
  (\<open>SUM\<close> over no row is \<open>NULL\<close>, and the division is by zero), the retention row a \<open>NULL\<close>
  rate (0 / 0). The row is truthy, so the defaults after \<open>||\<close> are not used and the
  snapshot carries \<open>null\<close> in both fields.
\<close>

theorem empty_store_percentage_and_rate_are_null:
  "map_sum id efectividad (collectRawData (empty_store_results (2024, 3, 15, 10, 0, 0)))
     = Inr \<lparr>total_usuarios = Value 0, mejoraron = Null, porcentaje_mejora = Null\<rparr>
   \<and> map_sum id retencion (collectRawData (empty_store_results (2024, 3, 15, 10, 0, 0)))
     = Inr \<lparr>promedio_meses_uso = Null, usuarios_activos_este_mes = Value 0,
            usuarios_activos_mes_anterior = Value 0, tasa_retencion = Null\<rparr>"
proof -
  let ?q = "empty_store_results (2024, 3, 15, 10, 0, 0)"
  have "query_failures ?q = []"
    by (simp add: query_failures_def failure_def empty_store_results_def store_results_def)
  then obtain raw where raw: "collectRawData ?q = Inr raw"
    using collectRawData_no_failure by blast
  then have raw': "collectRawData (store_results (2024, 3, 15, 10, 0, 0) [] [] []
       \<lparr>q_userCount = Inr [], q_newUsersThisMonth = Inr [], q_testCount = Inr [],
        q_messageCount = Inr (sql_count ([] :: unit list)),
        q_anxietyLevels = Inr [], q_depressionLevels = Inr [],
        q_ageDistribution = Inr [], q_genderDistribution = Inr [],
        q_monthlyUsers = Inr [], q_monthlyTests = Inr [], q_messageActivity = Inr [],
        q_correlationData = Inr [], q_efectividad = Inr [], q_retencion = Inr [],
        q_patronesUso = Inr [], q_respuestasExtra = Inr [], q_chatAnalytics = Inr []\<rparr>) = Inr raw"
    by (simp only: empty_store_results_def)
  have e: "efectividad raw = first_efectividad (sql_efectividad [])"
    using raw' by (rule store_snapshot_fields)
  have r: "retencion raw = first_retencion (sql_retencion (2024, 3, 15, 10, 0, 0) [] [] [])"
    using raw' by (rule store_snapshot_fields)
  have e': "first_efectividad (sql_efectividad [])
      = \<lparr>total_usuarios = Value 0, mejoraron = Null, porcentaje_mejora = Null\<rparr>"
    by code_simp
  have r': "first_retencion (sql_retencion (2024, 3, 15, 10, 0, 0) [] [] [])
      = \<lparr>promedio_meses_uso = Null, usuarios_activos_este_mes = Value 0,
            usuarios_activos_mes_anterior = Value 0, tasa_retencion = Null\<rparr>"
    by code_simp
  from raw e r e' r' show ?thesis by simp
qed

text \<open>
  Scenario B of the specification: one user, two tests 40 days apart, the anxiety score
  going down from 15 to 7.
\<close>

lemma effectiveness_scenario_B:
  "first_efectividad (sql_efectividad
      [\<lparr>rt_usuario_id = 1, rt_fecha = (2024, 1, 1, 9, 0, 0), rt_ansiedad_score = Some 15\<rparr>,
       \<lparr>rt_usuario_id = 1, rt_fecha = (2024, 2, 10, 9, 0, 0), rt_ansiedad_score = Some 7\<rparr>])
     = \<lparr>total_usuarios = Value 1, mejoraron = Value 1, porcentaje_mejora = Value 100\<rparr>"
  by code_simp

text \<open>
  Claim C7, the code at the failing input. One user took two tests at the same first
  date (scores 15 and 3) and one test 40 days later (score 7). The join of \<open>scores\<close> pairs
  each first-date row with the last-date row, so the single user is counted twice:
  total 2, improved 1, percentage 50.0.
\<close>

theorem effectiveness_counts_join_rows_not_users:
  "first_efectividad (sql_efectividad
      [\<lparr>rt_usuario_id = 1, rt_fecha = (2024, 1, 1, 9, 0, 0), rt_ansiedad_score = Some 15\<rparr>,
       \<lparr>rt_usuario_id = 1, rt_fecha = (2024, 1, 1, 9, 0, 0), rt_ansiedad_score = Some 3\<rparr>,
       \<lparr>rt_usuario_id = 1, rt_fecha = (2024, 2, 10, 9, 0, 0), rt_ansiedad_score = Some 7\<rparr>])
     = \<lparr>total_usuarios = Value 2, mejoraron = Value 1, porcentaje_mejora = Value 50\<rparr>
   \<and> length (user_tests
      [\<lparr>rt_usuario_id = 1, rt_fecha = (2024, 1, 1, 9, 0, 0), rt_ansiedad_score = Some 15\<rparr>,
       \<lparr>rt_usuario_id = 1, rt_fecha = (2024, 1, 1, 9, 0, 0), rt_ansiedad_score = Some 3\<rparr>,
       \<lparr>rt_usuario_id = 1, rt_fecha = (2024, 2, 10, 9, 0, 0), rt_ansiedad_score = Some 7\<rparr>]) = 1"
  by code_simp

subsection \<open>The agent runner\<close>

lemma remove_fences_no_backtick:
  "CHR ''`'' \<notin> set t \<Longrightarrow> remove_fences t = t"
  by (induction t) auto

lemma remove_fences_closing_fence:
  "CHR ''`'' \<notin> set t \<Longrightarrow> remove_fences (t @ ''```'') = t"
  by (induction t) auto

lemma remove_fences_wrapping:
  assumes "CHR ''`'' \<notin> set t"
  shows "remove_fences (''```json'' @ t @ ''```'') = t"
  using assms by (simp add: remove_fences_closing_fence)

lemma match_braces_Some:
  assumes "match_braces s = Some m"
  shows "\<exists>pre post. s = pre @ m @ post \<and> CHR ''{'' \<notin> set pre \<and> CHR ''}'' \<notin> set post
           \<and> hd m = CHR ''{'' \<and> last m = CHR ''}''"
proof -
  let ?from = "dropWhile (\<lambda>c. c \<noteq> CHR ''{'') s"
  let ?pre = "takeWhile (\<lambda>c. c \<noteq> CHR ''{'') s"
  let ?post = "rev (takeWhile (\<lambda>c. c \<noteq> CHR ''}'') (rev ?from))"
  from assms have m: "m = rev (dropWhile (\<lambda>c. c \<noteq> CHR ''}'') (rev ?from))" and ne: "m \<noteq> []"
    by (auto simp: match_braces_def Let_def split: if_splits)
  have "rev (takeWhile (\<lambda>c. c \<noteq> CHR ''}'') (rev ?from)
              @ dropWhile (\<lambda>c. c \<noteq> CHR ''}'') (rev ?from)) = ?from"
    by (simp only: takeWhile_dropWhile_id rev_rev_ident)
  then have "rev (dropWhile (\<lambda>c. c \<noteq> CHR ''}'') (rev ?from)) @ ?post = ?from"
    by (simp only: rev_append)
  then have from_eq: "?from = m @ ?post"
    by (simp only: m)
  have "s = ?pre @ ?from" by simp
  with from_eq have s: "s = ?pre @ m @ ?post" by simp
  have pre: "CHR ''{'' \<notin> set ?pre"
    by (auto dest: set_takeWhileD)
  have post: "CHR ''}'' \<notin> set ?post"
    by (auto dest: set_takeWhileD)
  from ne from_eq have "?from \<noteq> []" by (metis append_is_Nil_conv)
  then have "\<not> (hd ?from \<noteq> CHR ''{'')" by (rule hd_dropWhile)
  with ne from_eq have hd: "hd m = CHR ''{''" by (metis hd_append2)
  from ne m have dne: "dropWhile (\<lambda>c. c \<noteq> CHR ''}'') (rev ?from) \<noteq> []" by simp
  then have "\<not> (hd (dropWhile (\<lambda>c. c \<noteq> CHR ''}'') (rev ?from)) \<noteq> CHR ''}'')"
    by (rule hd_dropWhile)
  with dne have last: "last m = CHR ''}''"
    by (simp add: m last_rev)
  from s pre post hd last show ?thesis by blast
qed

lemma match_braces_None:
  "match_braces s = None \<longleftrightarrow> CHR ''}'' \<notin> set (dropWhile (\<lambda>c. c \<noteq> CHR ''{'') s)"
  by (auto simp: match_braces_def Let_def dropWhile_eq_Nil_conv)

text \<open>
  Claim C2 (as stated) fails: for a text made of two JSON objects the strict parse fails
  and the first balanced braces-delimited substring is the first object, which parses;
  the source takes the text from the first opening brace to the last closing brace,
  which does not parse, and signals the error although the fallback extraction of the
  claim succeeds.
\<close>

theorem runner_takes_first_to_last_brace:
  "JSON_parse (js_trim (remove_fences two_objects_text)) = None
   \<and> map_option JSON_parse (first_balanced_braces (js_trim (remove_fences two_objects_text)))
       = Some (Some (JObject [(''a'', JNumber ''1'')]))
   \<and> spec_agent_runner two_objects_backend AnalisisRecomendaciones
       = Inr (JObject [(''a'', JNumber ''1'')])
   \<and> match_braces (js_trim (remove_fences two_objects_text)) = Some two_objects_text
   \<and> runGeminiAgent two_objects_backend AnalisisRecomendaciones
       = Inl (agent_error AnalisisRecomendaciones)"
  by code_simp

lemma remove_fences_step_json:
  "CHR ''`'' \<notin> set pre \<Longrightarrow> remove_fences (pre @ ''```json'' @ rest) = pre @ remove_fences rest"
  by (induction pre) auto

lemma remove_fences_step_bare:
  "CHR ''`'' \<notin> set pre \<Longrightarrow> take 4 rest \<noteq> ''json''
     \<Longrightarrow> remove_fences (pre @ ''```'' @ rest) = pre @ remove_fences rest"
  by (induction pre) auto

lemma remove_fences_keep:
  assumes "take 3 (c # rest) \<noteq> ''```''"
  shows "remove_fences (c # rest) = c # remove_fences rest"
proof -
  have ne: "take 7 (c # rest) \<noteq> ''```json''"
  proof
    assume e: "take 7 (c # rest) = ''```json''"
    have "take 3 (take 7 (c # rest)) = take (min 3 7) (c # rest)" by (rule take_take)
    moreover have "min (3::nat) 7 = 3" by simp
    ultimately have "take 3 (c # rest) = take 3 (take 7 (c # rest))" by (simp only:)
    also have "\<dots> = take 3 ''```json''" by (simp only: e)
    also have "\<dots> = ''```''" by simp
    finally show False using assms by (simp only:)
  qed
  have "remove_fences (c # rest) =
     (if take 7 (c # rest) = ''```json'' then remove_fences (drop 6 rest)
      else if take 3 (c # rest) = ''```'' then remove_fences (drop 2 rest)
      else c # remove_fences rest)"
    by (rule remove_fences.simps)
  with ne assms show ?thesis by (simp only: if_False)
qed

lemma remove_fences_step_char:
  "CHR ''`'' \<notin> set pre \<Longrightarrow> take 3 (c # rest) \<noteq> ''```''
     \<Longrightarrow> remove_fences (pre @ c # rest) = pre @ c # remove_fences rest"
proof (induction pre)
  case Nil
  from Nil(2) have "remove_fences (c # rest) = c # remove_fences rest"
    by (rule remove_fences_keep)
  then show ?case by (simp only: append_Nil)
next
  case (Cons p pre)
  then have p: "p \<noteq> CHR ''`''" and ih: "remove_fences (pre @ c # rest) = pre @ c # remove_fences rest"
    by auto
  from p have "take 3 (p # pre @ c # rest) \<noteq> ''```''" by auto
  then have "remove_fences (p # pre @ c # rest) = p # remove_fences (pre @ c # rest)"
    by (rule remove_fences_keep)
  with ih show ?case by (simp only: append_Cons)
qed

lemma js_trim_decomposition:
  "\<exists>l r. t = l @ js_trim t @ r \<and> (\<forall>c\<in>set l. is_js_space c) \<and> (\<forall>c\<in>set r. is_js_space c)"
proof -
  let ?l = "takeWhile is_js_space t"
  let ?u = "dropWhile is_js_space t"
  let ?r = "rev (takeWhile is_js_space (rev ?u))"
  have "rev (takeWhile is_js_space (rev ?u) @ dropWhile is_js_space (rev ?u)) = ?u"
    by (simp only: takeWhile_dropWhile_id rev_rev_ident)
  then have u: "js_trim t @ ?r = ?u"
    by (simp only: rev_append js_trim_def)
  have "t = ?l @ ?u" by simp
  with u have t: "t = ?l @ js_trim t @ ?r" by simp
  have l: "\<forall>c\<in>set ?l. is_js_space c" by (auto dest: set_takeWhileD)
  have r: "\<forall>c\<in>set ?r. is_js_space c" by (auto dest: set_takeWhileD)
  from t l r show ?thesis by blast
qed

lemma js_trim_ends:
  assumes "js_trim t \<noteq> []"
  shows "\<not> is_js_space (hd (js_trim t)) \<and> \<not> is_js_space (last (js_trim t))"
proof -
  let ?u = "dropWhile is_js_space t"
  let ?r = "rev (takeWhile is_js_space (rev ?u))"
  have "rev (takeWhile is_js_space (rev ?u) @ dropWhile is_js_space (rev ?u)) = ?u"
    by (simp only: takeWhile_dropWhile_id rev_rev_ident)
  then have u: "js_trim t @ ?r = ?u"
    by (simp only: rev_append js_trim_def)
  with assms have "?u \<noteq> []" by (metis append_is_Nil_conv)
  then have "\<not> is_js_space (hd ?u)" by (rule hd_dropWhile)
  with assms u have hd: "\<not> is_js_space (hd (js_trim t))" by (metis hd_append2)
  from assms have d: "dropWhile is_js_space (rev ?u) \<noteq> []" by (simp add: js_trim_def)
  then have "\<not> is_js_space (hd (dropWhile is_js_space (rev ?u)))" by (rule hd_dropWhile)
  with d have "\<not> is_js_space (last (js_trim t))" by (simp add: js_trim_def last_rev)
  with hd show ?thesis by (rule conjI)
qed

text \<open>
  Claim C2 (amended). For every agent and every text the backend returns, the runner
  removes every code fence (with or without the word \<open>json\<close>) in one pass from the left,
  keeping every other character, and trims the white space at both ends of the result;
  it then parses the text as JSON, with no check of the expected shape; when that fails
  it takes the text from the first opening brace to the last closing brace after it, if
  there is such a pair, and parses that; it signals the error of the agent if and only if
  the strict parse fails and there is no such substring or it does not parse either. A
  text whose payload is an array inside other text has no such substring unless it
  contains braces.
\<close>

theorem agent_runner_parse_then_brace_span:
  assumes "backend a = Inr text" and "s = js_trim (remove_fences text)"
  shows "(\<forall>v. JSON_parse s = Some v \<longrightarrow> runGeminiAgent backend a = Inr v)
       \<and> (\<forall>m. JSON_parse s = None \<and> match_braces s = Some m \<longrightarrow>
             runGeminiAgent backend a
               = (case JSON_parse m of Some v \<Rightarrow> Inr v | None \<Rightarrow> Inl (agent_error a)))
       \<and> (runGeminiAgent backend a = Inl (agent_error a) \<longleftrightarrow>
             JSON_parse s = None \<and> (\<forall>m. match_braces s = Some m \<longrightarrow> JSON_parse m = None))
       \<and> (isl (runGeminiAgent backend a) \<longleftrightarrow>
             runGeminiAgent backend a = Inl (agent_error a))
       \<and> (\<forall>m. match_braces s = Some m \<longrightarrow>
             (\<exists>pre post. s = pre @ m @ post \<and> CHR ''{'' \<notin> set pre \<and> CHR ''}'' \<notin> set post
                 \<and> hd m = CHR ''{'' \<and> last m = CHR ''}''))
       \<and> (match_braces s = None \<longleftrightarrow> CHR ''}'' \<notin> set (dropWhile (\<lambda>c. c \<noteq> CHR ''{'') s))
       \<and> (\<exists>l r. remove_fences text = l @ s @ r
             \<and> (\<forall>c\<in>set l. is_js_space c) \<and> (\<forall>c\<in>set r. is_js_space c))
       \<and> (s \<noteq> [] \<longrightarrow> \<not> is_js_space (hd s) \<and> \<not> is_js_space (last s))
       \<and> (\<forall>pre rest. CHR ''`'' \<notin> set pre \<longrightarrow>
             remove_fences (pre @ ''```json'' @ rest) = pre @ remove_fences rest)
       \<and> (\<forall>pre rest. CHR ''`'' \<notin> set pre \<and> take 4 rest \<noteq> ''json'' \<longrightarrow>
             remove_fences (pre @ ''```'' @ rest) = pre @ remove_fences rest)
       \<and> (\<forall>pre c rest. CHR ''`'' \<notin> set pre \<and> take 3 (c # rest) \<noteq> ''```'' \<longrightarrow>
             remove_fences (pre @ c # rest) = pre @ c # remove_fences rest)
       \<and> (CHR ''`'' \<notin> set text \<longrightarrow> remove_fences text = text)"
proof -
  have run: "runGeminiAgent backend a =
     (case JSON_parse s of
        Some v \<Rightarrow> Inr v
      | None \<Rightarrow>
          (case match_braces s of
             Some jsonMatch \<Rightarrow>
               (case JSON_parse jsonMatch of Some v \<Rightarrow> Inr v | None \<Rightarrow> Inl (agent_error a))
           | None \<Rightarrow> Inl (agent_error a)))"
    unfolding runGeminiAgent_def Let_def assms(2) by (simp add: assms(1))
  have strict: "\<forall>v. JSON_parse s = Some v \<longrightarrow> runGeminiAgent backend a = Inr v"
    by (simp add: run)
  have fallback: "\<forall>m. JSON_parse s = None \<and> match_braces s = Some m \<longrightarrow>
             runGeminiAgent backend a
               = (case JSON_parse m of Some v \<Rightarrow> Inr v | None \<Rightarrow> Inl (agent_error a))"
    by (simp add: run)
  have err: "runGeminiAgent backend a = Inl (agent_error a) \<longleftrightarrow>
             JSON_parse s = None \<and> (\<forall>m. match_braces s = Some m \<longrightarrow> JSON_parse m = None)"
    by (simp add: run split: option.splits)
  have only: "isl (runGeminiAgent backend a) \<longleftrightarrow> runGeminiAgent backend a = Inl (agent_error a)"
    by (simp add: run split: option.splits)
  have span: "\<forall>m. match_braces s = Some m \<longrightarrow>
             (\<exists>pre post. s = pre @ m @ post \<and> CHR ''{'' \<notin> set pre \<and> CHR ''}'' \<notin> set post
                 \<and> hd m = CHR ''{'' \<and> last m = CHR ''}'')"
    using match_braces_Some by blast
  have none: "match_braces s = None \<longleftrightarrow> CHR ''}'' \<notin> set (dropWhile (\<lambda>c. c \<noteq> CHR ''{'') s)"
    by (rule match_braces_None)
  have trim: "\<exists>l r. remove_fences text = l @ s @ r
             \<and> (\<forall>c\<in>set l. is_js_space c) \<and> (\<forall>c\<in>set r. is_js_space c)"
    unfolding assms(2) by (rule js_trim_decomposition)
  have ends: "s \<noteq> [] \<longrightarrow> \<not> is_js_space (hd s) \<and> \<not> is_js_space (last s)"
    unfolding assms(2) using js_trim_ends by blast
  have fj: "\<forall>pre rest. CHR ''`'' \<notin> set pre \<longrightarrow>
             remove_fences (pre @ ''```json'' @ rest) = pre @ remove_fences rest"
    using remove_fences_step_json by blast
  have fb: "\<forall>pre rest. CHR ''`'' \<notin> set pre \<and> take 4 rest \<noteq> ''json'' \<longrightarrow>
             remove_fences (pre @ ''```'' @ rest) = pre @ remove_fences rest"
    using remove_fences_step_bare by blast
  have fc: "\<forall>pre c rest. CHR ''`'' \<notin> set pre \<and> take 3 (c # rest) \<noteq> ''```'' \<longrightarrow>
             remove_fences (pre @ c # rest) = pre @ c # remove_fences rest"
    using remove_fences_step_char by blast
  have fn: "CHR ''`'' \<notin> set text \<longrightarrow> remove_fences text = text"
    using remove_fences_no_backtick by blast
  from strict fallback err only span none trim ends fj fb fc fn show ?thesis by (intro conjI)
qed

theorem agent_runner_parse_then_brace_span_witness:
  "object_in_prose_backend AnalisisPatrones = Inr fenced_prose_text
   \<and> remove_fences fenced_prose_text
       = ''  '' @ [CHR 0x0A] @ ''Resultado: {'' @ [CHR 0x22] @ ''a'' @ [CHR 0x22] @ '':1} fin''
         @ [CHR 0x0A, CHR 0x0A]
   \<and> js_trim (remove_fences fenced_prose_text)
       = ''Resultado: {'' @ [CHR 0x22] @ ''a'' @ [CHR 0x22] @ '':1} fin''
   \<and> JSON_parse (js_trim (remove_fences fenced_prose_text)) = None
   \<and> match_braces (js_trim (remove_fences fenced_prose_text))
       = Some (''{'' @ [CHR 0x22] @ ''a'' @ [CHR 0x22] @ '':1}'')
   \<and> runGeminiAgent object_in_prose_backend AnalisisPatrones
       = Inr (JObject [(''a'', JNumber ''1'')])"
proof -
  let ?s = "js_trim (remove_fences fenced_prose_text)"
  let ?m = "''{'' @ [CHR 0x22] @ ''a'' @ [CHR 0x22] @ '':1}''"
  have b: "object_in_prose_backend AnalisisPatrones = Inr fenced_prose_text"
    by (simp add: object_in_prose_backend_def)
  have f: "remove_fences fenced_prose_text
       = ''  '' @ [CHR 0x0A] @ ''Resultado: {'' @ [CHR 0x22] @ ''a'' @ [CHR 0x22] @ '':1} fin''
         @ [CHR 0x0A, CHR 0x0A]"
    by code_simp
  have tr: "?s = ''Resultado: {'' @ [CHR 0x22] @ ''a'' @ [CHR 0x22] @ '':1} fin''"
    by code_simp
  have p: "JSON_parse ?s = None" by code_simp
  have m: "match_braces ?s = Some ?m" by code_simp
  have pm: "JSON_parse ?m = Some (JObject [(''a'', JNumber ''1'')])" by code_simp
  note t = agent_runner_parse_then_brace_span
         [of object_in_prose_backend AnalisisPatrones fenced_prose_text ?s, OF b refl]
  have "\<forall>m. JSON_parse ?s = None \<and> match_braces ?s = Some m \<longrightarrow>
             runGeminiAgent object_in_prose_backend AnalisisPatrones
               = (case JSON_parse m of Some v \<Rightarrow> Inr v
                  | None \<Rightarrow> Inl (agent_error AnalisisPatrones))"
    by (rule t [THEN conjunct2, THEN conjunct1])
  with p m have "runGeminiAgent object_in_prose_backend AnalisisPatrones
               = (case JSON_parse ?m of Some v \<Rightarrow> Inr v
                  | None \<Rightarrow> Inl (agent_error AnalisisPatrones))"
    by blast
  with pm have r: "runGeminiAgent object_in_prose_backend AnalisisPatrones
       = Inr (JObject [(''a'', JNumber ''1'')])"
    by simp
  show ?thesis by (intro conjI b f tr p m r)
qed

subsection \<open>The insight orchestrator\<close>

lemma geminiInsights_with_insights: "geminiInsights (with_insights rawData insights) = insights"
  by (simp add: with_insights_def)

lemma truncate_with_insights: "RawData.truncate (with_insights rawData insights) = rawData"
  by (simp add: with_insights_def RawData.truncate_def)

lemma analyze_all_succeed:
  assumes "runGeminiAgent backend AnalisisEfectividad = Inr v1"
    and "runGeminiAgent backend AnalisisPatrones = Inr v2"
    and "runGeminiAgent backend AnalisisCorrelaciones = Inr v3"
    and "runGeminiAgent backend AnalisisTendencias = Inr v4"
    and "runGeminiAgent backend AnalisisRecomendaciones = Inr v5"
    and "runGeminiAgent backend AnalisisRespuestas = Inr v6"
  shows "analyzeDataWithGeminiAgents backend rawData
           = with_insights rawData
               \<lparr>effectiveness = v1, significantPatterns = v2, correlations = v3,
                temporalTrends = v4, recommendations = v5, responseAnalysis = v6\<rparr>"
  using assms by (simp add: analyzeDataWithGeminiAgents_def)

lemma analyze_one_fails:
  assumes "runGeminiAgent backend a = Inl thrown"
  shows "analyzeDataWithGeminiAgents backend rawData = with_insights rawData fallback_insights"
  using assms
  by (cases a) (simp_all add: analyzeDataWithGeminiAgents_def split: sum.splits)

text \<open>
  Claim C1 (amended). For every run of the insight pipeline over a snapshot: if none of
  the six agents fails, the six fields of the bundle are the parsed outputs of the six
  agents; if at least one agent fails, all six fields hold the fixed fallback values,
  those of the agents that succeeded included. In both cases the fields of the snapshot
  are carried over unchanged and, the snapshot having been collected, the request answers
  with status 200 and \<open>success: true\<close>.
\<close>

theorem insights_all_real_or_all_fallback:
  "((\<forall>a. \<not> isl (runGeminiAgent backend a)) \<longrightarrow>
       geminiInsights (analyzeDataWithGeminiAgents backend rawData)
         = \<lparr>effectiveness = projr (runGeminiAgent backend AnalisisEfectividad),
            significantPatterns = projr (runGeminiAgent backend AnalisisPatrones),
            correlations = projr (runGeminiAgent backend AnalisisCorrelaciones),
            temporalTrends = projr (runGeminiAgent backend AnalisisTendencias),
            recommendations = projr (runGeminiAgent backend AnalisisRecomendaciones),
            responseAnalysis = projr (runGeminiAgent backend AnalisisRespuestas)\<rparr>)
   \<and> ((\<exists>a. isl (runGeminiAgent backend a)) \<longrightarrow>
         geminiInsights (analyzeDataWithGeminiAgents backend rawData) = fallback_insights)
   \<and> RawData.truncate (analyzeDataWithGeminiAgents backend rawData) = rawData
   \<and> (collectRawData q = Inr rawData \<longrightarrow>
         GET q backend
           = \<lparr>status = 200, success = True,
              stats = Some (analyzeDataWithGeminiAgents backend rawData), error = None\<rparr>)"
proof -
  have real: "(\<forall>a. \<not> isl (runGeminiAgent backend a)) \<longrightarrow>
       geminiInsights (analyzeDataWithGeminiAgents backend rawData)
         = \<lparr>effectiveness = projr (runGeminiAgent backend AnalisisEfectividad),
            significantPatterns = projr (runGeminiAgent backend AnalisisPatrones),
            correlations = projr (runGeminiAgent backend AnalisisCorrelaciones),
            temporalTrends = projr (runGeminiAgent backend AnalisisTendencias),
            recommendations = projr (runGeminiAgent backend AnalisisRecomendaciones),
            responseAnalysis = projr (runGeminiAgent backend AnalisisRespuestas)\<rparr>"
  proof
    assume ok: "\<forall>a. \<not> isl (runGeminiAgent backend a)"
    have r: "\<And>a. runGeminiAgent backend a = Inr (projr (runGeminiAgent backend a))"
      using ok by (simp add: sum.collapse(2))
    show "geminiInsights (analyzeDataWithGeminiAgents backend rawData)
         = \<lparr>effectiveness = projr (runGeminiAgent backend AnalisisEfectividad),
            significantPatterns = projr (runGeminiAgent backend AnalisisPatrones),
            correlations = projr (runGeminiAgent backend AnalisisCorrelaciones),
            temporalTrends = projr (runGeminiAgent backend AnalisisTendencias),
            recommendations = projr (runGeminiAgent backend AnalisisRecomendaciones),
            responseAnalysis = projr (runGeminiAgent backend AnalisisRespuestas)\<rparr>"
      by (simp only: analyze_all_succeed [OF r r r r r r] geminiInsights_with_insights)
  qed
  have fallback: "(\<exists>a. isl (runGeminiAgent backend a)) \<longrightarrow>
         geminiInsights (analyzeDataWithGeminiAgents backend rawData) = fallback_insights"
  proof
    assume "\<exists>a. isl (runGeminiAgent backend a)"
    then obtain a thrown where "runGeminiAgent backend a = Inl thrown"
      by (metis sum.collapse(1))
    then show "geminiInsights (analyzeDataWithGeminiAgents backend rawData) = fallback_insights"
      by (simp only: analyze_one_fails geminiInsights_with_insights)
  qed
  have kept: "RawData.truncate (analyzeDataWithGeminiAgents backend rawData) = rawData"
  proof (cases "\<exists>a. isl (runGeminiAgent backend a)")
    case True
    then obtain a thrown where "runGeminiAgent backend a = Inl thrown"
      by (metis sum.collapse(1))
    then show ?thesis
      by (simp only: analyze_one_fails truncate_with_insights)
  next
    case False
    then have r: "\<And>a. runGeminiAgent backend a = Inr (projr (runGeminiAgent backend a))"
      by (simp add: sum.collapse(2))
    show ?thesis
      by (simp only: analyze_all_succeed [OF r r r r r r] truncate_with_insights)
  qed
  have ok: "collectRawData q = Inr rawData \<longrightarrow>
         GET q backend
           = \<lparr>status = 200, success = True,
              stats = Some (analyzeDataWithGeminiAgents backend rawData), error = None\<rparr>"
    by (simp add: GET_def)
  from real fallback kept ok show ?thesis by (intro conjI)
qed

text \<open>
  Claim C1 (as stated) fails: when the answer to the recommendations agent alone is not
  JSON and the other five agents return parsed values, the request reports success, but
  the effectiveness field of the bundle is the fallback literal, not the parsed output of
  the effectiveness agent.
\<close>

theorem one_failed_agent_replaces_all_insights:
  "runGeminiAgent malformed_recommendations_backend AnalisisEfectividad
     = Inr (JObject [(''insight'', JString ''ok''), (''score'', JNumber ''80'')])
   \<and> runGeminiAgent malformed_recommendations_backend AnalisisPatrones
       = Inr (JArray [JString ''p''])
   \<and> runGeminiAgent malformed_recommendations_backend AnalisisCorrelaciones
       = Inr (JArray [JString ''c''])
   \<and> runGeminiAgent malformed_recommendations_backend AnalisisTendencias
       = Inr (JArray [JString ''t''])
   \<and> runGeminiAgent malformed_recommendations_backend AnalisisRespuestas
       = Inr (JObject [(''commonPatterns'', JArray []), (''keyInsights'', JArray []),
                       (''recommendedActions'', JArray [])])
   \<and> runGeminiAgent malformed_recommendations_backend AnalisisRecomendaciones
       = Inl (agent_error AnalisisRecomendaciones)
   \<and> success (GET (empty_store_results (2024, 3, 15, 10, 0, 0)) malformed_recommendations_backend)
   \<and> map_option (effectiveness \<circ> geminiInsights)
        (stats (GET (empty_store_results (2024, 3, 15, 10, 0, 0)) malformed_recommendations_backend))
       = Some (JObject [(''insight'', JString ''Error al analizar efectividad''),
                        (''score'', JNumber ''0'')])"
proof -
  let ?q = "empty_store_results (2024, 3, 15, 10, 0, 0)"
  have r1: "runGeminiAgent malformed_recommendations_backend AnalisisEfectividad
     = Inr (JObject [(''insight'', JString ''ok''), (''score'', JNumber ''80'')])"
    by code_simp
  have r2: "runGeminiAgent malformed_recommendations_backend AnalisisPatrones
       = Inr (JArray [JString ''p''])"
    by code_simp
  have r3: "runGeminiAgent malformed_recommendations_backend AnalisisCorrelaciones
       = Inr (JArray [JString ''c''])"
    by code_simp
  have r4: "runGeminiAgent malformed_recommendations_backend AnalisisTendencias
       = Inr (JArray [JString ''t''])"
    by code_simp
  have r6: "runGeminiAgent malformed_recommendations_backend AnalisisRespuestas
       = Inr (JObject [(''commonPatterns'', JArray []), (''keyInsights'', JArray []),
                       (''recommendedActions'', JArray [])])"
    by code_simp
  have r5: "runGeminiAgent malformed_recommendations_backend AnalisisRecomendaciones
       = Inl (agent_error AnalisisRecomendaciones)"
    by code_simp
  have "query_failures ?q = []"
    by (simp add: query_failures_def failure_def empty_store_results_def store_results_def)
  then obtain rawData where raw: "collectRawData ?q = Inr rawData"
    using collectRawData_no_failure by blast
  have a: "analyzeDataWithGeminiAgents malformed_recommendations_backend rawData
      = with_insights rawData fallback_insights"
    using r5 by (rule analyze_one_fails)
  have g: "GET ?q malformed_recommendations_backend
      = \<lparr>status = 200, success = True,
         stats = Some (with_insights rawData fallback_insights), error = None\<rparr>"
    by (simp add: GET_def raw a)
  have s: "success (GET ?q malformed_recommendations_backend)"
    by (simp only: g) simp
  have e: "map_option (effectiveness \<circ> geminiInsights) (stats (GET ?q malformed_recommendations_backend))
       = Some (JObject [(''insight'', JString ''Error al analizar efectividad''),
                        (''score'', JNumber ''0'')])"
    by (simp only: g) (simp add: geminiInsights_with_insights fallback_insights_def)
  show ?thesis
    by (intro conjI r1 r2 r3 r4 r6 r5 s e)
qed

theorem insights_all_real_or_all_fallback_witness:
  "(\<exists>rawData. collectRawData (empty_store_results (2024, 3, 15, 10, 0, 0)) = Inr rawData
      \<and> geminiInsights (analyzeDataWithGeminiAgents malformed_recommendations_backend rawData)
          = fallback_insights
      \<and> recommendations (geminiInsights (analyzeDataWithGeminiAgents
            wellformed_backend rawData))
          = JArray [JString ''r''])
   \<and> success (GET (empty_store_results (2024, 3, 15, 10, 0, 0)) malformed_recommendations_backend)"
proof -
  let ?q = "empty_store_results (2024, 3, 15, 10, 0, 0)"
  let ?bad = "malformed_recommendations_backend"
  let ?good = "wellformed_backend"
  have "query_failures ?q = []"
    by (simp add: query_failures_def failure_def empty_store_results_def store_results_def)
  then obtain rawData where raw: "collectRawData ?q = Inr rawData"
    using collectRawData_no_failure by blast
  have "isl (runGeminiAgent ?bad AnalisisRecomendaciones)" by code_simp
  then have some: "\<exists>a. isl (runGeminiAgent ?bad a)" by (rule exI)
  have g1: "\<not> isl (runGeminiAgent ?good AnalisisEfectividad)" by code_simp
  have g2: "\<not> isl (runGeminiAgent ?good AnalisisPatrones)" by code_simp
  have g3: "\<not> isl (runGeminiAgent ?good AnalisisCorrelaciones)" by code_simp
  have g4: "\<not> isl (runGeminiAgent ?good AnalisisTendencias)" by code_simp
  have g5: "\<not> isl (runGeminiAgent ?good AnalisisRecomendaciones)" by code_simp
  have g6: "\<not> isl (runGeminiAgent ?good AnalisisRespuestas)" by code_simp
  have none: "\<forall>a. \<not> isl (runGeminiAgent ?good a)"
  proof
    fix a show "\<not> isl (runGeminiAgent ?good a)"
    proof (cases a)
      case AnalisisEfectividad
      show ?thesis unfolding AnalisisEfectividad by (rule g1)
    next
      case AnalisisPatrones
      show ?thesis unfolding AnalisisPatrones by (rule g2)
    next
      case AnalisisCorrelaciones
      show ?thesis unfolding AnalisisCorrelaciones by (rule g3)
    next
      case AnalisisTendencias
      show ?thesis unfolding AnalisisTendencias by (rule g4)
    next
      case AnalisisRecomendaciones
      show ?thesis unfolding AnalisisRecomendaciones by (rule g5)
    next
      case AnalisisRespuestas
      show ?thesis unfolding AnalisisRespuestas by (rule g6)
    qed
  qed
  have rec: "projr (runGeminiAgent ?good AnalisisRecomendaciones) = JArray [JString ''r'']"
    by code_simp
  note bad = insights_all_real_or_all_fallback [of ?bad rawData ?q]
  note good = insights_all_real_or_all_fallback [of ?good rawData ?q]
  have f: "geminiInsights (analyzeDataWithGeminiAgents ?bad rawData) = fallback_insights"
    by (rule bad [THEN conjunct2, THEN conjunct1, THEN mp, OF some])
  have "geminiInsights (analyzeDataWithGeminiAgents ?good rawData)
         = \<lparr>effectiveness = projr (runGeminiAgent ?good AnalisisEfectividad),
            significantPatterns = projr (runGeminiAgent ?good AnalisisPatrones),
            correlations = projr (runGeminiAgent ?good AnalisisCorrelaciones),
            temporalTrends = projr (runGeminiAgent ?good AnalisisTendencias),
            recommendations = projr (runGeminiAgent ?good AnalisisRecomendaciones),
            responseAnalysis = projr (runGeminiAgent ?good AnalisisRespuestas)\<rparr>"
    by (rule good [THEN conjunct1, THEN mp, OF none])
  then have "recommendations (geminiInsights (analyzeDataWithGeminiAgents ?good rawData))
      = projr (runGeminiAgent ?good AnalisisRecomendaciones)"
    by (simp only: GeminiInsights.simps)
  then have g: "recommendations (geminiInsights (analyzeDataWithGeminiAgents ?good rawData))
      = JArray [JString ''r'']"
    by (simp only: rec)
  have "GET ?q ?bad
           = \<lparr>status = 200, success = True,
              stats = Some (analyzeDataWithGeminiAgents ?bad rawData), error = None\<rparr>"
    by (rule bad [THEN conjunct2, THEN conjunct2, THEN conjunct2, THEN mp, OF raw])
  then have s: "success (GET ?q ?bad)"
    by (simp only: dashboard_response.simps)
  have "collectRawData ?q = Inr rawData
      \<and> geminiInsights (analyzeDataWithGeminiAgents ?bad rawData) = fallback_insights
      \<and> recommendations (geminiInsights (analyzeDataWithGeminiAgents ?good rawData))
          = JArray [JString ''r'']"
    by (intro conjI raw f g)
  then have "\<exists>rawData. collectRawData ?q = Inr rawData
      \<and> geminiInsights (analyzeDataWithGeminiAgents ?bad rawData) = fallback_insights
      \<and> recommendations (geminiInsights (analyzeDataWithGeminiAgents ?good rawData))
          = JArray [JString ''r'']"
    by (rule exI)
  with s show ?thesis by (intro conjI)
qed

subsection \<open>Effectiveness when no user has two tests at the same date\<close>

lemma sql_efectividad_percentage:
  assumes "scores tests \<noteq> []"
  shows "sql_efectividad tests
           = [\<lparr>total_usuarios = Value (int (length (scores tests))),
               mejoraron = Value (sum_list (map mejoro (scores tests))),
               porcentaje_mejora =
                 Value (round1 (of_int (sum_list (map mejoro (scores tests)))
                                  / of_int (int (length (scores tests))) * 100))\<rparr>]"
  using assms
  by (simp add: sql_efectividad_def Let_def sql_SUM_def sql_div_def sql_times_def
      sql_ROUND1_def of_sql_def)

lemma fold_min_in: "fold min xs (x :: 'a :: linorder) \<in> set (x # xs)"
proof (induction xs arbitrary: x)
  case Nil
  show ?case by simp
next
  case (Cons y ys)
  have c: "min y x = x \<or> min y x = y" by (simp add: min_def)
  have "fold min ys (min y x) \<in> set (min y x # ys)" by (rule Cons.IH)
  with c have "fold min ys (min y x) \<in> set (x # y # ys)" by auto
  then show ?case by simp
qed

lemma fold_max_in: "fold max xs (x :: 'a :: linorder) \<in> set (x # xs)"
proof (induction xs arbitrary: x)
  case Nil
  show ?case by simp
next
  case (Cons y ys)
  have c: "max y x = x \<or> max y x = y" by (simp add: max_def)
  have "fold max ys (max y x) \<in> set (max y x # ys)" by (rule Cons.IH)
  with c have "fold max ys (max y x) \<in> set (x # y # ys)" by auto
  then show ?case by simp
qed

lemma map_filter_id_Some: "List.map_filter id (map Some ys) = ys"
  by (induction ys) (simp_all add: List.map_filter_simps)

lemma sql_MIN_Some_in:
  assumes "ys \<noteq> []"
  shows "\<exists>d\<in>set ys. sql_MIN (map Some ys) = Some d"
proof -
  from assms obtain y ys' where ys: "ys = y # ys'" by (cases ys) auto
  have "fold min ys' y \<in> set (y # ys')" by (rule fold_min_in)
  then show ?thesis
    by (simp add: sql_MIN_def map_filter_id_Some [unfolded ys] ys map_filter_id_Some
        del: set_simps)
qed

lemma sql_MAX_Some_in:
  assumes "ys \<noteq> []"
  shows "\<exists>d\<in>set ys. sql_MAX (map Some ys) = Some d"
proof -
  from assms obtain y ys' where ys: "ys = y # ys'" by (cases ys) auto
  have "fold max ys' y \<in> set (y # ys')" by (rule fold_max_in)
  then show ?thesis
    by (simp add: sql_MAX_def ys map_filter_id_Some del: set_simps)
qed

lemma length_concat_guard:
  "length (concat (map (\<lambda>x. if P x then [h x] else []) xs)) = length (filter P xs)"
  by (induction xs) simp_all

lemma length_concat_guard_const:
  assumes "\<And>x. length (ys x) = n"
  shows "length (concat (map (\<lambda>x. if P x then ys x else []) xs)) = n * length (filter P xs)"
  by (induction xs) (simp_all add: assms)

lemma length_concat_ones:
  assumes "\<And>x. x \<in> set xs \<Longrightarrow> length (g x) = 1"
  shows "length (concat (map g xs)) = length xs"
  using assms by (induction xs) simp_all

lemma one_test_per_user_and_date:
  assumes "distinct (map (\<lambda>t. (rt_usuario_id t, rt_fecha t)) tests)"
    and "t \<in> set tests"
  shows "length (filter (\<lambda>t'. rt_usuario_id t = rt_usuario_id t' \<and> rt_fecha t = rt_fecha t') tests) = 1"
proof -
  from assms(2) have "(rt_usuario_id t, rt_fecha t) \<in> set (map (\<lambda>t. (rt_usuario_id t, rt_fecha t)) tests)"
    by force
  with assms(1) have "length (filter (\<lambda>k. k = (rt_usuario_id t, rt_fecha t))
                          (map (\<lambda>t. (rt_usuario_id t, rt_fecha t)) tests)) = 1"
    by (rule distinct_occurs_once)
  then have "length (filter (\<lambda>t'. rt_usuario_id t' = rt_usuario_id t \<and> rt_fecha t' = rt_fecha t) tests) = 1"
    by (simp add: filter_map comp_def)
  moreover have "filter (\<lambda>t'. rt_usuario_id t = rt_usuario_id t' \<and> rt_fecha t = rt_fecha t') tests
      = filter (\<lambda>t'. rt_usuario_id t' = rt_usuario_id t \<and> rt_fecha t' = rt_fecha t) tests"
    by (rule filter_cong) auto
  ultimately show ?thesis by simp
qed

lemma user_tests_row:
  assumes "ut \<in> set (user_tests tests)"
  shows "\<exists>f\<in>set tests. \<exists>l\<in>set tests.
           rt_usuario_id f = ut_usuario_id ut \<and> rt_usuario_id l = ut_usuario_id ut
           \<and> primera_fecha ut = Some (rt_fecha f) \<and> ultima_fecha ut = Some (rt_fecha l)"
proof -
  let ?mine = "\<lambda>uid. filter (\<lambda>t. rt_usuario_id t = uid) tests"
  from assms obtain uid where uid: "uid \<in> set (map rt_usuario_id tests)"
    and ut: "ut = \<lparr>ut_usuario_id = uid,
                   primera_fecha = sql_MIN (map (\<lambda>t. Some (rt_fecha t)) (?mine uid)),
                   ultima_fecha = sql_MAX (map (\<lambda>t. Some (rt_fecha t)) (?mine uid))\<rparr>"
    by (auto simp: user_tests_def Let_def)
  from uid have ne: "map rt_fecha (?mine uid) \<noteq> []"
    by (auto simp: filter_empty_conv)
  have m: "map (\<lambda>t. Some (rt_fecha t)) (?mine uid) = map Some (map rt_fecha (?mine uid))"
    by simp
  from sql_MIN_Some_in [OF ne] obtain d where
    d: "d \<in> set (map rt_fecha (?mine uid))" "sql_MIN (map Some (map rt_fecha (?mine uid))) = Some d"
    by blast
  from sql_MAX_Some_in [OF ne] obtain e where
    e: "e \<in> set (map rt_fecha (?mine uid))" "sql_MAX (map Some (map rt_fecha (?mine uid))) = Some e"
    by blast
  from d(1) obtain f where f: "f \<in> set tests" "rt_usuario_id f = uid" "rt_fecha f = d" by auto
  from e(1) obtain l where l: "l \<in> set tests" "rt_usuario_id l = uid" "rt_fecha l = e" by auto
  have "primera_fecha ut = Some (rt_fecha f)" using ut d(2) f(3) by (simp only: m) simp
  moreover have "ultima_fecha ut = Some (rt_fecha l)" using ut e(2) l(3) by (simp only: m) simp
  moreover have "ut_usuario_id ut = uid" using ut by simp
  ultimately show ?thesis using f l by blast
qed

text \<open>
  When no user has two test rows with the same \<open>fecha\<close>, \<open>scores\<close> has exactly one row
  for each row of \<open>user_tests\<close>, that is, for each user whose first and last test dates
  are at least 30 days apart.
\<close>

lemma scores_one_row_per_user:
  assumes "distinct (map (\<lambda>t. (rt_usuario_id t, rt_fecha t)) tests)"
  shows "length (scores tests) = length (user_tests tests)"
proof -
  have row: "\<And>ut. ut \<in> set (user_tests tests) \<Longrightarrow>
      length (concat (map (\<lambda>first_test.
         if ut_usuario_id ut = rt_usuario_id first_test \<and> primera_fecha ut = Some (rt_fecha first_test)
         then concat (map (\<lambda>last_test.
                if ut_usuario_id ut = rt_usuario_id last_test \<and> ultima_fecha ut = Some (rt_fecha last_test)
                then [(rt_ansiedad_score first_test, rt_ansiedad_score last_test)] else []) tests)
         else []) tests)) = 1"
  proof -
    fix ut assume "ut \<in> set (user_tests tests)"
    from user_tests_row [OF this] obtain f l where
      f: "f \<in> set tests" "rt_usuario_id f = ut_usuario_id ut" "primera_fecha ut = Some (rt_fecha f)"
      and l: "l \<in> set tests" "rt_usuario_id l = ut_usuario_id ut" "ultima_fecha ut = Some (rt_fecha l)"
      by blast
    have nf: "length (filter (\<lambda>t'. ut_usuario_id ut = rt_usuario_id t'
                \<and> primera_fecha ut = Some (rt_fecha t')) tests) = 1"
      using one_test_per_user_and_date [OF assms f(1)] f(2,3) by simp
    have nl: "length (filter (\<lambda>t'. ut_usuario_id ut = rt_usuario_id t'
                \<and> ultima_fecha ut = Some (rt_fecha t')) tests) = 1"
      using one_test_per_user_and_date [OF assms l(1)] l(2,3) by simp
    have inner: "\<And>first_test. length (concat (map (\<lambda>last_test.
                if ut_usuario_id ut = rt_usuario_id last_test \<and> ultima_fecha ut = Some (rt_fecha last_test)
                then [(rt_ansiedad_score first_test, rt_ansiedad_score last_test)] else []) tests)) = 1"
      by (simp only: length_concat_guard nl)
    show "length (concat (map (\<lambda>first_test.
         if ut_usuario_id ut = rt_usuario_id first_test \<and> primera_fecha ut = Some (rt_fecha first_test)
         then concat (map (\<lambda>last_test.
                if ut_usuario_id ut = rt_usuario_id last_test \<and> ultima_fecha ut = Some (rt_fecha last_test)
                then [(rt_ansiedad_score first_test, rt_ansiedad_score last_test)] else []) tests)
         else []) tests)) = 1"
      by (simp only: length_concat_guard_const [where n = 1, OF inner] nf)
  qed
  show ?thesis
    unfolding scores_def by (rule length_concat_ones) (rule row)
qed

end
